theory Spec2Isabelle
  imports Main "HOL-Library.Multiset"
begin

section \<open>Errors\<close>

text \<open>
  Every \<^verbatim>\<open>throw\<close> of the TypeScript sources is a value of \<open>error\<close>.  \<open>Thrown\<close> stands
  for an exception raised by a collaborator outside the modelled files (network, IndexedDB,
  the CRDT runtime); its string is the message.
\<close>

datatype error =
    EngineNotInitialized
  | EngineAlreadyStarted
  | AssertEqualsFailed
  | UnknownWorkspaceFlavour string
  | BlobDownloadError error
  | Thrown string

section \<open>WorkspaceEngine (entities/engine.ts)\<close>

text \<open>
  The worker client exposes three frontends; they are opaque handles here.  The engine
  object has the two fields \<^verbatim>\<open>worker\<close> (initially undefined) and \<^verbatim>\<open>started\<close> (initially
  false), the list of disposables it inherits from \<^verbatim>\<open>Entity\<close>, and we record every call it
  makes on a collaborator in \<open>calls\<close>.  Construction of the object is not modelled: the
  model starts from the initial values of the fields, and the field initializer
  \<^verbatim>\<open>rootDocState$ = this.doc.docState$(...)\<close>, which reads the \<^verbatim>\<open>doc\<close> getter while the object
  is being built, is left out.
\<close>

record worker_client =
  docFrontend :: nat
  blobFrontend :: nat
  awarenessFrontend :: nat

datatype disposable = DisposeWorker nat | StopDoc

datatype engine_call =
    EmitBeforeStart
  | OpenWorker
  | AddPriority string nat
  | AddDoc string bool
  | DocStart
  | AwarenessConnect

record engine =
  worker :: "worker_client option"
  started :: bool
  disposables :: "disposable list"
  calls :: "engine_call list"

definition new_engine :: engine where
  "new_engine = \<lparr>worker = None, started = False, disposables = [], calls = []\<rparr>"

text \<open>The three getters: each throws when \<^verbatim>\<open>this.worker\<close> is not set.\<close>

definition doc :: "engine \<Rightarrow> error + nat" where
  "doc e = (case worker e of None \<Rightarrow> Inl EngineNotInitialized | Some w \<Rightarrow> Inr (docFrontend w))"

definition blob :: "engine \<Rightarrow> error + nat" where
  "blob e = (case worker e of None \<Rightarrow> Inl EngineNotInitialized | Some w \<Rightarrow> Inr (blobFrontend w))"

definition awareness :: "engine \<Rightarrow> error + nat" where
  "awareness e =
     (case worker e of None \<Rightarrow> Inl EngineNotInitialized | Some w \<Rightarrow> Inr (awarenessFrontend w))"

text \<open>
  What the collaborators answer during one call of \<^verbatim>\<open>start()\<close>: the event bus, the worker
  provider (a client and its dispose handle, or an exception), and the four calls on the
  frontends.  \<open>None\<close> is a normal return, \<open>Some err\<close> an exception.
\<close>

record start_env =
  emitR :: "error option"
  openWorkerR :: "error + (worker_client \<times> nat)"
  addPriorityR :: "error option"
  addDocR :: "error option"
  docStartR :: "error option"
  connectR :: "error option"
  rootGuid :: string

text \<open>
  \<^verbatim>\<open>start()\<close>, statement by statement.  The result is the exception (\<open>Inl\<close>) or a normal
  return, together with the engine as the call leaves it: a JavaScript exception does not
  undo the assignments made before it.
\<close>

definition start_frontends :: "engine \<Rightarrow> start_env \<Rightarrow> (error + unit) \<times> engine" where
  "start_frontends e env =
     (case doc e of Inl err \<Rightarrow> (Inl err, e) | Inr _ \<Rightarrow>
      let e1 = e\<lparr>calls := calls e @ [AddPriority (rootGuid env) 100]\<rparr> in
      case addPriorityR env of Some err \<Rightarrow> (Inl err, e1) | None \<Rightarrow>
      case doc e1 of Inl err \<Rightarrow> (Inl err, e1) | Inr _ \<Rightarrow>
      let e2 = e1\<lparr>calls := calls e1 @ [AddDoc (rootGuid env) True]\<rparr> in
      case addDocR env of Some err \<Rightarrow> (Inl err, e2) | None \<Rightarrow>
      case doc e2 of Inl err \<Rightarrow> (Inl err, e2) | Inr _ \<Rightarrow>
      let e3 = e2\<lparr>calls := calls e2 @ [DocStart]\<rparr> in
      case docStartR env of Some err \<Rightarrow> (Inl err, e3) | None \<Rightarrow>
      let e4 = e3\<lparr>disposables := disposables e3 @ [StopDoc]\<rparr> in
      case awareness e4 of Inl err \<Rightarrow> (Inl err, e4) | Inr _ \<Rightarrow>
      let e5 = e4\<lparr>calls := calls e4 @ [AwarenessConnect]\<rparr> in
      case connectR env of Some err \<Rightarrow> (Inl err, e5) | None \<Rightarrow> (Inr (), e5))"

definition start :: "engine \<Rightarrow> start_env \<Rightarrow> (error + unit) \<times> engine" where
  "start e env =
     (if started e then (Inl EngineAlreadyStarted, e)
      else
        let e1 = e\<lparr>started := True, calls := calls e @ [EmitBeforeStart]\<rparr> in
        case emitR env of Some err \<Rightarrow> (Inl err, e1) | None \<Rightarrow>
        let e2 = e1\<lparr>calls := calls e1 @ [OpenWorker]\<rparr> in
        case openWorkerR env of
          Inl err \<Rightarrow> (Inl err, e2)
        | Inr (client, dispose) \<Rightarrow>
            start_frontends
              (e2\<lparr>worker := Some client,
                  disposables := disposables e2 @ [DisposeWorker dispose]\<rparr>) env)"

text \<open>
  A client of the engine can call \<^verbatim>\<open>start()\<close> or read one of the three accessors; nothing
  else in the class writes \<^verbatim>\<open>worker\<close> or \<^verbatim>\<open>started\<close>.  \<open>engine_run\<close> performs a sequence of
  such operations and collects what each one answered.
\<close>

datatype engine_op = OpStart start_env | OpDoc | OpBlob | OpAwareness

datatype engine_answer = Raised error | Returned | Frontend nat

definition answer_of :: "error + nat \<Rightarrow> engine_answer" where
  "answer_of r = (case r of Inl err \<Rightarrow> Raised err | Inr h \<Rightarrow> Frontend h)"

fun engine_step :: "engine \<Rightarrow> engine_op \<Rightarrow> engine_answer \<times> engine" where
  "engine_step e (OpStart env) =
     (case start e env of (Inl err, e') \<Rightarrow> (Raised err, e') | (Inr _, e') \<Rightarrow> (Returned, e'))"
| "engine_step e OpDoc = (answer_of (doc e), e)"
| "engine_step e OpBlob = (answer_of (blob e), e)"
| "engine_step e OpAwareness = (answer_of (awareness e), e)"

fun engine_run :: "engine \<Rightarrow> engine_op list \<Rightarrow> engine_answer list" where
  "engine_run e [] = []"
| "engine_run e (x # xs) = (case engine_step e x of (a, e') \<Rightarrow> a # engine_run e' xs)"

fun dead_answer :: "engine_op \<Rightarrow> engine_answer" where
  "dead_answer (OpStart _) = Raised EngineAlreadyStarted"
| "dead_answer _ = Raised EngineNotInitialized"

text \<open>Two concrete answers of the collaborators: the worker provider throws, or all goes well.\<close>

definition failing_worker_env :: start_env where
  "failing_worker_env =
     \<lparr>emitR = None, openWorkerR = Inl (Thrown ''worker unavailable''), addPriorityR = None,
      addDocR = None, docStartR = None, connectR = None, rootGuid = ''root''\<rparr>"

definition working_env :: start_env where
  "working_env =
     \<lparr>emitR = None,
      openWorkerR = Inr (\<lparr>docFrontend = 1, blobFrontend = 2, awarenessFrontend = 3\<rparr>, 7),
      addPriorityR = None, addDocR = None, docStartR = None, connectR = None,
      rootGuid = ''root''\<rparr>"

section \<open>Backend registry (nbstore impls/index.ts)\<close>

text \<open>
  The nine storage classes the module imports.  \<open>class_name\<close> is the \<^verbatim>\<open>name\<close> property of
  the class (the identifier it is declared and imported under), which is what the table is
  keyed by: \<^verbatim>\<open>acc[curr.name] = curr\<close>.
\<close>

datatype storage_impl =
    CloudDocStorage | CloudBlobStorage | CloudAwarenessStorage
  | IndexedDBV1DocStorage | IndexedDBV1BlobStorage
  | IndexedDBDocStorage | IndexedDBBlobStorage | IndexedDBSyncStorage
  | BroadcastChannelAwarenessStorage

fun class_name :: "storage_impl \<Rightarrow> string" where
  "class_name CloudDocStorage = ''CloudDocStorage''"
| "class_name CloudBlobStorage = ''CloudBlobStorage''"
| "class_name CloudAwarenessStorage = ''CloudAwarenessStorage''"
| "class_name IndexedDBV1DocStorage = ''IndexedDBV1DocStorage''"
| "class_name IndexedDBV1BlobStorage = ''IndexedDBV1BlobStorage''"
| "class_name IndexedDBDocStorage = ''IndexedDBDocStorage''"
| "class_name IndexedDBBlobStorage = ''IndexedDBBlobStorage''"
| "class_name IndexedDBSyncStorage = ''IndexedDBSyncStorage''"
| "class_name BroadcastChannelAwarenessStorage = ''BroadcastChannelAwarenessStorage''"

definition idb :: "storage_impl list" where
  "idb = [IndexedDBDocStorage, IndexedDBBlobStorage, IndexedDBSyncStorage,
          BroadcastChannelAwarenessStorage]"

definition idbv1 :: "storage_impl list" where
  "idbv1 = [IndexedDBV1DocStorage, IndexedDBV1BlobStorage]"

definition cloud :: "storage_impl list" where
  "cloud = [CloudDocStorage, CloudBlobStorage, CloudAwarenessStorage]"

definition storages :: "storage_impl list" where
  "storages = cloud @ idbv1 @ idb"

text \<open>The \<^verbatim>\<open>reduce\<close> that builds the table, starting from the empty object.\<close>

definition AvailableStorageImplementations :: "string \<rightharpoonup> storage_impl" where
  "AvailableStorageImplementations =
     foldl (\<lambda>acc curr. acc(class_name curr \<mapsto> curr)) Map.empty storages"

text \<open>
  The table is a plain object literal, so a property read that finds no own property
  goes on to \<^verbatim>\<open>Object.prototype\<close>; a name found in neither is \<^verbatim>\<open>undefined\<close>.
\<close>

definition object_prototype_members :: "string list" where
  "object_prototype_members =
     [''constructor'', ''hasOwnProperty'', ''isPrototypeOf'', ''propertyIsEnumerable'',
      ''toLocaleString'', ''toString'', ''valueOf'', ''__proto__'',
      ''__defineGetter__'', ''__defineSetter__'', ''__lookupGetter__'', ''__lookupSetter__'']"

datatype resolved = Registered storage_impl | Inherited string | Undefined

text \<open>
  \<^verbatim>\<open>getAvailableStorageImplementations\<close> is the property read and nothing else.  Its result
  type has the error summand only so that "it throws" can be said of it.
\<close>

definition getAvailableStorageImplementations :: "string \<Rightarrow> error + resolved" where
  "getAvailableStorageImplementations name =
     Inr (case AvailableStorageImplementations name of
            Some c \<Rightarrow> Registered c
          | None \<Rightarrow> if name \<in> set object_prototype_members then Inherited name else Undefined)"

section \<open>CloudBlobStorage.get (nbstore impls/cloud/blob.ts)\<close>

type_synonym bytes = "nat list"

text \<open>
  \<^verbatim>\<open>new Date(x)\<close> of a header string or of a millisecond count; the parse is not modelled.
\<close>

datatype js_date = DateOfString string | DateOfMillis nat

record blob_record =
  key :: string
  data :: bytes
  mime :: string
  size_of :: "nat option"
  createdAt :: "js_date option"

text \<open>
  The response of \<^verbatim>\<open>connection.fetch\<close>: its status, what \<^verbatim>\<open>res.blob()\<close> gives (a body with
  its type, size and the outcome of \<^verbatim>\<open>arrayBuffer()\<close>, or an exception) and the
  \<^verbatim>\<open>last-modified\<close> header (\<open>None\<close> for null).
\<close>

record js_blob =
  blob_type :: string
  blob_size :: nat
  arrayBufferR :: "error + bytes"

record http_response =
  status :: nat
  blobR :: "error + js_blob"
  last_modified :: "string option"

text \<open>
  \<^verbatim>\<open>HttpConnection.fetch\<close> is not among the modelled files: it is the parameter \<open>fetch\<close>, from
  the request path to a response or an exception.  \<open>now\<close> is \<^verbatim>\<open>Date.now()\<close>.  In
  \<^verbatim>\<open>h || Date.now()\<close> a null and an empty header both fall through to the clock.
\<close>

definition created_at :: "string option \<Rightarrow> nat \<Rightarrow> js_date" where
  "created_at h now =
     (case h of None \<Rightarrow> DateOfMillis now
      | Some s \<Rightarrow> if s = [] then DateOfMillis now else DateOfString s)"

definition blob_path :: "string \<Rightarrow> string \<Rightarrow> string" where
  "blob_path spaceId k = ''/api/workspaces/'' @ spaceId @ ''/blobs/'' @ k"

definition CloudBlobStorage_get ::
  "(string \<Rightarrow> error + http_response) \<Rightarrow> nat \<Rightarrow> string \<Rightarrow> string
     \<Rightarrow> error + blob_record option" where
  "CloudBlobStorage_get fetch now spaceId k =
     (case fetch (blob_path spaceId k) of
        Inl err \<Rightarrow> Inl err
      | Inr res \<Rightarrow>
          if status res = 404 then Inr None
          else
            (case blobR res of
               Inl err \<Rightarrow> Inl (BlobDownloadError err)
             | Inr b \<Rightarrow>
                 (case arrayBufferR b of
                    Inl err \<Rightarrow> Inl (BlobDownloadError err)
                  | Inr bin \<Rightarrow>
                      Inr (Some \<lparr>key = k, data = bin, mime = blob_type b,
                                 size_of = Some (blob_size b),
                                 createdAt = Some (created_at (last_modified res) now)\<rparr>))))"

section \<open>addImages (edgeless/utils/common.ts)\<close>

record js_file =
  file_name :: string
  file_type :: string
  file_size :: nat

text \<open>
  An image block as \<^verbatim>\<open>addImages\<close> writes it.  The card is placed at the origin (the viewport
  centre or the drop point) shifted by \<^verbatim>\<open>index * IMAGE_STACK_GAP\<close> in both coordinates; we
  keep that shift and the \<^verbatim>\<open>inTopLeft\<close> flag.  The upload step later adds the blob id and
  the image's natural size.  The derived floating-point fields (\<^verbatim>\<open>xywh\<close>, the width and
  height limited by \<^verbatim>\<open>maxWidth\<close>) are not represented.
\<close>

record image_block =
  block_size :: nat
  stack_shift :: nat
  in_top_left :: bool
  sourceId :: "string option"
  natural_size :: "(nat \<times> nat) option"

record editor =
  toasts :: "string list"
  console_errors :: "string list"
  blocks :: "(string \<times> image_block) list"
  selection :: "string list"
  commands :: "string list"

text \<open>
  The collaborators: the image service (\<open>None\<close> when \<^verbatim>\<open>getService\<close> finds none, else its
  \<^verbatim>\<open>maxFileSize\<close>), \<^verbatim>\<open>humanFileSize\<close>, the id the document gives to a new block (a function
  of how many blocks it holds), the blob upload, the image decoder, and the time at which
  the upload of the file at a given index settles.
\<close>

record image_env =
  imageService :: "nat option"
  humanFileSize :: "nat \<Rightarrow> string"
  newBlockId :: "nat \<Rightarrow> string"
  blobSyncSet :: "js_file \<Rightarrow> error + string"
  readImageSize :: "js_file \<Rightarrow> error + (nat \<times> nat)"
  settleTime :: "nat \<Rightarrow> nat"

definition IMAGE_STACK_GAP :: nat where
  "IMAGE_STACK_GAP = 32"

definition startsWith :: "string \<Rightarrow> string \<Rightarrow> bool" where
  "startsWith s p = (take (length p) s = p)"

definition is_image :: "js_file \<Rightarrow> bool" where
  "is_image f = startsWith (file_type f) ''image/''"

text \<open>The \<^verbatim>\<open>forEach\<close> that creates one card per file; it returns \<^verbatim>\<open>dropInfos\<close>.\<close>

fun create_cards ::
  "image_env \<Rightarrow> bool \<Rightarrow> nat \<Rightarrow> js_file list \<Rightarrow> editor \<Rightarrow> editor \<times> (nat \<times> string) list" where
  "create_cards env inTopLeft i [] ed = (ed, [])"
| "create_cards env inTopLeft i (f # fs) ed =
     (let bid = newBlockId env (length (blocks ed));
          card = \<lparr>block_size = file_size f, stack_shift = i * IMAGE_STACK_GAP,
                   in_top_left = inTopLeft, sourceId = None, natural_size = None\<rparr>;
          (ed', infos) = create_cards env inTopLeft (Suc i) fs (ed\<lparr>blocks := blocks ed @ [(bid, card)]\<rparr>)
      in (ed', (i * IMAGE_STACK_GAP, bid) # infos))"

definition updateElement :: "string \<Rightarrow> string \<Rightarrow> nat \<times> nat \<Rightarrow> editor \<Rightarrow> editor" where
  "updateElement bid src sz ed =
     ed\<lparr>blocks := map (\<lambda>(b, c). if b = bid
                          then (b, c\<lparr>sourceId := Some src, natural_size := Some sz\<rparr>)
                          else (b, c)) (blocks ed)\<rparr>"

text \<open>
  The uploads.  The source starts them all and awaits \<^verbatim>\<open>Promise.all\<close>.  Each upload touches
  only its own block, and settles (writes its block, or fails) at a time that the
  environment decides; \<^verbatim>\<open>Promise.all\<close> rejects with the upload that fails first in time.
  So the uploads are taken in the order of their settle times (equal times in index order),
  and the first one that fails ends the call with its exception and the editor as it is at
  that moment.  Uploads that settle later still write their own blocks, after the call has
  thrown; that is not part of the result.
\<close>

fun upload_in_order ::
  "image_env \<Rightarrow> (js_file \<times> (nat \<times> string)) list \<Rightarrow> nat list \<Rightarrow> editor \<Rightarrow> error option \<times> editor" where
  "upload_in_order env pairs [] ed = (None, ed)"
| "upload_in_order env pairs (i # rest) ed =
     (if i < length pairs then
        (case pairs ! i of
           (f, (p, bid)) \<Rightarrow>
             (case blobSyncSet env f of
                Inl err \<Rightarrow> (Some err, ed)
              | Inr src \<Rightarrow>
                  (case readImageSize env f of
                     Inl err \<Rightarrow> (Some err, ed)
                   | Inr sz \<Rightarrow> upload_in_order env pairs rest (updateElement bid src sz ed))))
      else upload_in_order env pairs rest ed)"

definition upload_all ::
  "image_env \<Rightarrow> (js_file \<times> (nat \<times> string)) list \<Rightarrow> editor \<Rightarrow> error option \<times> editor" where
  "upload_all env pairs ed =
     upload_in_order env pairs (sort_key (settleTime env) [0..<length pairs]) ed"

definition size_notice :: "image_env \<Rightarrow> nat \<Rightarrow> string" where
  "size_notice env maxFileSize =
     ''You can only upload files less than '' @ humanFileSize env maxFileSize"

definition addImages :: "editor \<Rightarrow> image_env \<Rightarrow> js_file list \<Rightarrow> (error + string list) \<times> editor" where
  "addImages ed env files =
     (let imageFiles = filter is_image files in
      if imageFiles = [] then (Inr [], ed)
      else
        case imageService env of
          None \<Rightarrow> (Inr [], ed\<lparr>console_errors := console_errors ed @ [''Image service not found'']\<rparr>)
        | Some maxFileSize \<Rightarrow>
            if list_ex (\<lambda>f. file_size f > maxFileSize) imageFiles
            then (Inr [], ed\<lparr>toasts := toasts ed @ [size_notice env maxFileSize]\<rparr>)
            else
              let isMultipleFiles = (length imageFiles > 1);
                  (ed1, dropInfos) = create_cards env isMultipleFiles 0 imageFiles ed
              in case upload_all env (zip imageFiles dropInfos) ed1 of
                   (Some err, ed2) \<Rightarrow> (Inl err, ed2)
                 | (None, ed2) \<Rightarrow>
                     let blockIds = map snd dropInfos;
                         ed3 = ed2\<lparr>selection := blockIds\<rparr>;
                         ed4 = (if isMultipleFiles
                                then ed3\<lparr>commands := commands ed3 @ [''autoResizeElements'']\<rparr>
                                else ed3)
                     in (Inr blockIds, ed4))"

definition empty_editor :: editor where
  "empty_editor = \<lparr>toasts = [], console_errors = [], blocks = [], selection = [], commands = []\<rparr>"

text \<open>A concrete batch: two PNG files and an image service with a limit of 1000 bytes.\<close>

definition small_png :: js_file where
  "small_png = \<lparr>file_name = ''a.png'', file_type = ''image/png'', file_size = 10\<rparr>"

definition big_png :: js_file where
  "big_png = \<lparr>file_name = ''b.png'', file_type = ''image/png'', file_size = 2000\<rparr>"

definition env_1000 :: image_env where
  "env_1000 = \<lparr>imageService = Some 1000, humanFileSize = (\<lambda>n. ''1 kB''),
               newBlockId = (\<lambda>n. ''block''), blobSyncSet = (\<lambda>f. Inr (file_name f)),
               readImageSize = (\<lambda>f. Inr (1, 1)), settleTime = (\<lambda>i. i)\<rparr>"

section \<open>Cloud workspace list revalidation (CloudWorkspaceFlavourProvider.revalidate)\<close>

record workspace_metadata =
  ws_id :: string
  ws_flavour :: string
  initialized :: "bool option"

text \<open>
  The state the refresh works on: the process-wide \<^verbatim>\<open>globalState\<close> cache, the live value of
  \<^verbatim>\<open>workspaces$\<close> together with the sequence of values pushed to its observers, the
  \<^verbatim>\<open>isRevalidating$\<close> flag, the \<^verbatim>\<open>error$\<close> channel, and the account id the pipeline saw
  at its last trigger (\<open>None\<close> before the first trigger; \<open>Some None\<close> for no account).
\<close>

record cloud_state =
  globalState :: "string \<rightharpoonup> workspace_metadata list"
  workspaces_value :: "workspace_metadata list"
  workspaces_emitted :: "workspace_metadata list list"
  isRevalidating :: bool
  error_value :: "error option"
  identity :: "string option option"

definition workspaces_next :: "workspace_metadata list \<Rightarrow> cloud_state \<Rightarrow> cloud_state" where
  "workspaces_next v st =
     st\<lparr>workspaces_value := v, workspaces_emitted := workspaces_emitted st @ [v]\<rparr>"

definition getCloudWorkspaceCacheKey :: "string \<Rightarrow> string" where
  "getCloudWorkspaceCacheKey serverId =
     (if serverId = ''affine-cloud'' then ''cloud-workspace:''
      else ''selfhosted-workspace-'' @ serverId @ '':'')"

text \<open>
  \<^verbatim>\<open>Array.prototype.sort\<close> with a comparator is a stable sort; with a consistent comparator
  its result is the one of this insertion sort.  The comparator \<^verbatim>\<open>localeCompare\<close> is a
  parameter: it answers a negative number, zero or a positive number.
\<close>

fun sort_insert :: "('a \<Rightarrow> 'a \<Rightarrow> int) \<Rightarrow> 'a \<Rightarrow> 'a list \<Rightarrow> 'a list" where
  "sort_insert cmp x [] = [x]"
| "sort_insert cmp x (y # ys) =
     (if cmp x y \<le> 0 then x # y # ys else y # sort_insert cmp x ys)"

definition js_sort :: "('a \<Rightarrow> 'a \<Rightarrow> int) \<Rightarrow> 'a list \<Rightarrow> 'a list" where
  "js_sort cmp xs = foldr (sort_insert cmp) xs []"

definition by_id :: "(string \<Rightarrow> string \<Rightarrow> int) \<Rightarrow> workspace_metadata \<Rightarrow> workspace_metadata \<Rightarrow> int" where
  "by_id localeCompare a b = localeCompare (ws_id a) (ws_id b)"

text \<open>
  The promise of the refresh: no account (undefined or the empty string) gives null without
  a request; otherwise the answer \<open>gqlR\<close> of \<^verbatim>\<open>getWorkspacesQuery\<close> is awaited and each entry
  becomes a metadata record of this server's flavour.
\<close>

record gql_workspace =
  gql_id :: string
  gql_initialized :: bool

definition fetch_workspaces ::
  "string \<Rightarrow> string option \<Rightarrow> error + gql_workspace list
     \<Rightarrow> error + (string \<times> workspace_metadata list) option" where
  "fetch_workspaces serverId accountId gqlR =
     (case accountId of
        None \<Rightarrow> Inr None
      | Some a \<Rightarrow>
          if a = [] then Inr None
          else
            (case gqlR of
               Inl err \<Rightarrow> Inl err
             | Inr workspaces \<Rightarrow>
                 Inr (Some (a, map (\<lambda>g. \<lparr>ws_id = gql_id g, ws_flavour = serverId,
                                           initialized = Some (gql_initialized g)\<rparr>) workspaces))))"

text \<open>The \<^verbatim>\<open>mergeMap\<close> handler: sort, write the cache, push only a changed list.\<close>

definition commit_workspaces ::
  "(string \<Rightarrow> string \<Rightarrow> int) \<Rightarrow> string \<Rightarrow> (string \<times> workspace_metadata list) option
     \<Rightarrow> cloud_state \<Rightarrow> cloud_state" where
  "commit_workspaces localeCompare serverId fetched_data st =
     (case fetched_data of
        Some (accountId, workspaces) \<Rightarrow>
          let sorted = js_sort (by_id localeCompare) workspaces;
              st1 = st\<lparr>globalState :=
                         (globalState st)(getCloudWorkspaceCacheKey serverId @ accountId \<mapsto> sorted)\<rparr>
          in if workspaces_value st1 \<noteq> sorted then workspaces_next sorted st1 else st1
      | None \<Rightarrow> workspaces_next [] st)"

text \<open>
  The third argument of \<^verbatim>\<open>exhaustMapSwitchUntilChanged\<close>, called when the pipeline switches
  to an account: with an account, the list cached for it (or the empty list when there is
  none) is pushed; with no account, the empty list.
\<close>

definition revalidate_onSwitch :: "string \<Rightarrow> string option \<Rightarrow> cloud_state \<Rightarrow> cloud_state" where
  "revalidate_onSwitch serverId accountId st =
     (case accountId of
        None \<Rightarrow> workspaces_next [] st
      | Some a \<Rightarrow>
          if a = [] then workspaces_next [] st
          else workspaces_next
                 (case globalState st (getCloudWorkspaceCacheKey serverId @ a) of
                    None \<Rightarrow> []
                  | Some cached \<Rightarrow> cached) st)"

text \<open>
  The second argument of \<^verbatim>\<open>exhaustMapSwitchUntilChanged\<close>, one refresh.
  Modelled from the spec: the operators \<^verbatim>\<open>onStart\<close>, \<^verbatim>\<open>onComplete\<close> and \<^verbatim>\<open>catchErrorInto\<close> are
  not among the source files.  The refresh raises the revalidating flag, runs the promise
  and the handler, captures an exception into the error channel instead of throwing it,
  and clears the flag.
\<close>

definition revalidate_project ::
  "(string \<Rightarrow> string \<Rightarrow> int) \<Rightarrow> string \<Rightarrow> string option \<Rightarrow> error + gql_workspace list
     \<Rightarrow> cloud_state \<Rightarrow> cloud_state" where
  "revalidate_project localeCompare serverId accountId gqlR st =
     (let st1 = st\<lparr>isRevalidating := True\<rparr>;
          st2 = (case fetch_workspaces serverId accountId gqlR of
                   Inl err \<Rightarrow> st1\<lparr>error_value := Some err\<rparr>
                 | Inr fetched_data \<Rightarrow> commit_workspaces localeCompare serverId fetched_data st1)
      in st2\<lparr>isRevalidating := False\<rparr>)"

text \<open>
  One call of \<^verbatim>\<open>revalidate()\<close> that runs to its end before the next one.
  Modelled from the spec: \<^verbatim>\<open>effect\<close> and \<^verbatim>\<open>exhaustMapSwitchUntilChanged\<close> are not among the
  source files.  The pipeline is keyed by the account id read at the trigger, compared with
  the first argument \<^verbatim>\<open>(a, b) => a.accountId === b.accountId\<close>.  When the account id differs
  from the one of the last trigger, and at the first trigger, the pipeline switches: the
  third argument is called, then the refresh starts.  For an unchanged account id only the
  refresh runs.  A trigger that arrives while a refresh for the same account is in flight
  is dropped by the operator; such overlapping triggers are not represented.
\<close>

definition revalidate ::
  "(string \<Rightarrow> string \<Rightarrow> int) \<Rightarrow> string \<Rightarrow> string option \<Rightarrow> error + gql_workspace list
     \<Rightarrow> cloud_state \<Rightarrow> cloud_state" where
  "revalidate localeCompare serverId accountId gqlR st =
     (let st0 = (if identity st = Some accountId then st
                 else revalidate_onSwitch serverId accountId (st\<lparr>identity := Some accountId\<rparr>))
      in revalidate_project localeCompare serverId accountId gqlR st0)"

text \<open>A concrete comparator (by character code) and a concrete state, for examples.\<close>

fun code_compare :: "string \<Rightarrow> string \<Rightarrow> int" where
  "code_compare [] [] = 0"
| "code_compare [] (y # ys) = - 1"
| "code_compare (x # xs) [] = 1"
| "code_compare (x # xs) (y # ys) =
     (if (of_char x :: nat) < of_char y then - 1
      else if (of_char y :: nat) < of_char x then 1
      else code_compare xs ys)"

definition fresh_cloud_state :: cloud_state where
  "fresh_cloud_state =
     \<lparr>globalState = Map.empty, workspaces_value = [], workspaces_emitted = [],
      isRevalidating = False, error_value = None, identity = None\<rparr>"

definition two_workspaces :: "gql_workspace list" where
  "two_workspaces = [\<lparr>gql_id = ''w2'', gql_initialized = True\<rparr>,
                     \<lparr>gql_id = ''w1'', gql_initialized = False\<rparr>]"

text \<open>The state after a first refresh from the fresh state, and the sorted list it writes.\<close>

definition once_refreshed :: cloud_state where
  "once_refreshed =
     revalidate code_compare ''affine-cloud'' (Some ''acct'') (Inr two_workspaces) fresh_cloud_state"

definition sorted_two :: "workspace_metadata list" where
  "sorted_two =
     [\<lparr>ws_id = ''w1'', ws_flavour = ''affine-cloud'', initialized = Some False\<rparr>,
      \<lparr>ws_id = ''w2'', ws_flavour = ''affine-cloud'', initialized = Some True\<rparr>]"

section \<open>Workspace creation (flavour providers, WorkspaceFactoryService)\<close>

record doc_record =
  docId :: string
  bin :: bytes

text \<open>
  Modelled from the spec: \<^verbatim>\<open>IndexedDBDocStorage\<close> and \<^verbatim>\<open>IndexedDBBlobStorage\<close> are not among the
  source files.  A doc storage keeps, per document id, the updates pushed to it in order
  (\<^verbatim>\<open>pushDocUpdate\<close> appends and never overwrites); a blob storage keeps one record per key
  (\<^verbatim>\<open>set\<close> stores the record under its key).
\<close>

type_synonym doc_store = "string \<Rightarrow> bytes list"

type_synonym blob_store = "string \<rightharpoonup> blob_record"

definition pushDocUpdate :: "doc_record \<Rightarrow> doc_store \<Rightarrow> doc_store" where
  "pushDocUpdate r s = s(docId r := s (docId r) @ [bin r])"

definition blob_set :: "blob_record \<Rightarrow> blob_store \<Rightarrow> blob_store" where
  "blob_set b s = s(key b \<mapsto> b)"

text \<open>
  A document collection, as far as these functions touch it: its id, and for the root
  document and each subdocument the updates applied so far.  The CRDT runtime is opaque:
  \<^verbatim>\<open>encodeStateAsUpdate\<close> and \<^verbatim>\<open>getSubdocs\<close> are functions of the updates a document has
  received, supplied by the environment.
\<close>

record collection =
  coll_id :: string
  root_updates :: "bytes list"
  subdoc_updates :: "string \<Rightarrow> bytes list"

definition new_collection :: "string \<Rightarrow> collection" where
  "new_collection i = \<lparr>coll_id = i, root_updates = [], subdoc_updates = (\<lambda>g. [])\<rparr>"

text \<open>
  The three handles an initializer is called with.  An initializer returns the handles as
  it leaves them and, when it throws, the exception: what it wrote before throwing stays
  written.
\<close>

record init_ctx =
  docCollection :: collection
  blobStorage :: blob_store
  docStorage :: doc_store

type_synonym initializer = "init_ctx \<Rightarrow> error option \<times> init_ctx"

text \<open>
  The world outside: the calls made on collaborators whose effect is not modelled (in
  order), the item of \<^verbatim>\<open>localStorage\<close> holding the local workspace ids (\<open>None\<close> when it is
  missing or does not parse), and the IndexedDB storages, one per peer and workspace id.
\<close>

datatype event =
    GqlCreateWorkspace
  | Revalidate string
  | WaitForLoaded string
  | PostMessage string
  | DisposeCollection string
  | DeleteWorkspace workspace_metadata

record world =
  trace :: "event list"
  localStorageIds :: "string list option"
  docStores :: "string \<times> string \<Rightarrow> doc_store"
  blobStores :: "string \<times> string \<Rightarrow> blob_store"

text \<open>
  What the collaborators answer.  For creation: the id \<^verbatim>\<open>nanoid()\<close> returns, the answer of
  \<^verbatim>\<open>createWorkspaceMutation\<close>, whether a \<^verbatim>\<open>pushDocUpdate\<close> fails, the outcome of
  \<^verbatim>\<open>waitForLoaded\<close>, and the CRDT runtime.  For the transform: the outcome of
  \<^verbatim>\<open>destroy.deleteWorkspace\<close>, the local workspace's doc storage (\<^verbatim>\<open>getDoc\<close>) and blob storage
  (\<^verbatim>\<open>list\<close>, \<^verbatim>\<open>get\<close>), whether \<^verbatim>\<open>set\<close> on the new blob storage fails, and
  \<^verbatim>\<open>transformWorkspaceDBLocalToCloud\<close> as a function of the local id, the new id, the account
  id and the new doc storage.
\<close>

record env =
  nanoid :: string
  gqlCreateWorkspaceR :: "error + string"
  pushDocUpdateR :: "doc_record \<Rightarrow> error option"
  waitForLoadedR :: "error option"
  encodeStateAsUpdate :: "bytes list \<Rightarrow> bytes"
  getSubdocs :: "bytes list \<Rightarrow> string list"
  applyUpdateR :: "bytes \<Rightarrow> error option"
  deleteWorkspaceR :: "error option"
  getDocR :: "string \<Rightarrow> error + doc_record option"
  blobListR :: "error + string list"
  blobGetR :: "string \<Rightarrow> error + blob_record option"
  blobSetR :: "blob_record \<Rightarrow> error option"
  transformWorkspaceDBLocalToCloud ::
    "string \<Rightarrow> string \<Rightarrow> string \<Rightarrow> doc_store \<Rightarrow> error option \<times> doc_store"

definition getLocalWorkspaceIds :: "world \<Rightarrow> string list" where
  "getLocalWorkspaceIds w = (case localStorageIds w of None \<Rightarrow> [] | Some ids \<Rightarrow> ids)"

definition setLocalWorkspaceIds :: "(string list \<Rightarrow> string list) \<Rightarrow> world \<Rightarrow> world" where
  "setLocalWorkspaceIds updater w = w\<lparr>localStorageIds := Some (updater (getLocalWorkspaceIds w))\<rparr>"

definition emit :: "event \<Rightarrow> world \<Rightarrow> world" where
  "emit ev w = w\<lparr>trace := trace w @ [ev]\<rparr>"

text \<open>
  Constructing the two storages and the collection for a peer and a workspace id, and the
  world once the handles have been written through.
\<close>

definition open_handles :: "string \<Rightarrow> string \<Rightarrow> world \<Rightarrow> init_ctx" where
  "open_handles peer i w =
     \<lparr>docCollection = new_collection i, blobStorage = blobStores w (peer, i),
      docStorage = docStores w (peer, i)\<rparr>"

definition written :: "string \<Rightarrow> string \<Rightarrow> init_ctx \<Rightarrow> world \<Rightarrow> world" where
  "written peer i ctx w =
     w\<lparr>docStores := (docStores w)((peer, i) := docStorage ctx),
       blobStores := (blobStores w)((peer, i) := blobStorage ctx)\<rparr>"

text \<open>
  Saving the collection: the root document under the workspace id, then every subdocument
  under its guid; the first failing push ends it.
\<close>

fun push_all :: "env \<Rightarrow> doc_record list \<Rightarrow> doc_store \<Rightarrow> error option \<times> doc_store" where
  "push_all env [] s = (None, s)"
| "push_all env (r # rs) s =
     (case pushDocUpdateR env r of
        Some err \<Rightarrow> (Some err, s)
      | None \<Rightarrow> push_all env rs (pushDocUpdate r s))"

definition save_collection :: "env \<Rightarrow> string \<Rightarrow> init_ctx \<Rightarrow> error option \<times> init_ctx" where
  "save_collection env i ctx =
     (let c = docCollection ctx;
          records =
            \<lparr>docId = i, bin = encodeStateAsUpdate env (root_updates c)\<rparr> #
            map (\<lambda>g. \<lparr>docId = g, bin = encodeStateAsUpdate env (subdoc_updates c g)\<rparr>)
              (getSubdocs env (root_updates c));
          (r, s) = push_all env records (docStorage ctx)
      in (r, ctx\<lparr>docStorage := s\<rparr>))"

text \<open>
  \<^verbatim>\<open>LocalWorkspaceFlavourProvider.createWorkspace\<close>.  The \<^verbatim>\<open>finally\<close> block disposes the
  collection on every path out of the \<^verbatim>\<open>try\<close>.
\<close>

definition createWorkspace_local :: "env \<Rightarrow> initializer \<Rightarrow> world \<Rightarrow> (error + workspace_metadata) \<times> world" where
  "createWorkspace_local env initial w =
     (let i = nanoid env;
          (r1, ctx1) = initial (open_handles ''local'' i w)
      in case r1 of
           Some err \<Rightarrow> (Inl err, emit (DisposeCollection i) (written ''local'' i ctx1 w))
         | None \<Rightarrow>
             (case save_collection env i ctx1 of
                (Some err, ctx2) \<Rightarrow> (Inl err, emit (DisposeCollection i) (written ''local'' i ctx2 w))
              | (None, ctx2) \<Rightarrow>
                  (Inr \<lparr>ws_id = i, ws_flavour = ''local'', initialized = None\<rparr>,
                   emit (DisposeCollection i)
                     (emit (PostMessage i)
                        (setLocalWorkspaceIds (\<lambda>ids. ids @ [i]) (written ''local'' i ctx2 w))))))"

text \<open>
  \<^verbatim>\<open>CloudWorkspaceFlavourProvider.createWorkspace\<close> of the server \<open>serverId\<close>: the mutation
  comes first and outside the \<^verbatim>\<open>try\<close>; the peer id is the server id.
\<close>

definition createWorkspace_cloud ::
  "string \<Rightarrow> env \<Rightarrow> initializer \<Rightarrow> world \<Rightarrow> (error + workspace_metadata) \<times> world" where
  "createWorkspace_cloud serverId env initial w =
     (let w0 = emit GqlCreateWorkspace w in
      case gqlCreateWorkspaceR env of
        Inl err \<Rightarrow> (Inl err, w0)
      | Inr workspaceId \<Rightarrow>
          (let (r1, ctx1) = initial (open_handles serverId workspaceId w0)
           in case r1 of
                Some err \<Rightarrow>
                  (Inl err, emit (DisposeCollection workspaceId) (written serverId workspaceId ctx1 w0))
              | None \<Rightarrow>
                  (case save_collection env workspaceId ctx1 of
                     (Some err, ctx2) \<Rightarrow>
                       (Inl err,
                        emit (DisposeCollection workspaceId) (written serverId workspaceId ctx2 w0))
                   | (None, ctx2) \<Rightarrow>
                       (let w1 = emit (WaitForLoaded serverId)
                                   (emit (Revalidate serverId) (written serverId workspaceId ctx2 w0))
                        in case waitForLoadedR env of
                             Some err \<Rightarrow> (Inl err, emit (DisposeCollection workspaceId) w1)
                           | None \<Rightarrow>
                               (Inr \<lparr>ws_id = workspaceId, ws_flavour = serverId,
                                     initialized = None\<rparr>,
                                emit (DisposeCollection workspaceId) w1)))))"

datatype provider = LocalProvider | CloudProvider string

fun flavour_of :: "provider \<Rightarrow> string" where
  "flavour_of LocalProvider = ''local''"
| "flavour_of (CloudProvider serverId) = serverId"

fun createWorkspace :: "provider \<Rightarrow> env \<Rightarrow> initializer \<Rightarrow> world \<Rightarrow> (error + workspace_metadata) \<times> world" where
  "createWorkspace LocalProvider env initial w = createWorkspace_local env initial w"
| "createWorkspace (CloudProvider serverId) env initial w = createWorkspace_cloud serverId env initial w"

text \<open>\<^verbatim>\<open>WorkspaceFactoryService.create\<close>: the first provider of that flavour, or an exception.\<close>

definition factory_create ::
  "env \<Rightarrow> provider list \<Rightarrow> string \<Rightarrow> initializer \<Rightarrow> world \<Rightarrow> (error + workspace_metadata) \<times> world" where
  "factory_create env providers flavour initial w =
     (case find (\<lambda>x. flavour_of x = flavour) providers of
        None \<Rightarrow> (Inl (UnknownWorkspaceFlavour flavour), w)
      | Some p \<Rightarrow> createWorkspace p env initial w)"

section \<open>The local-to-cloud transform (services/transform.ts)\<close>

text \<open>
  The local workspace, as the transform reads it: \<^verbatim>\<open>local.id\<close>, \<^verbatim>\<open>local.flavour\<close>,
  \<^verbatim>\<open>local.meta\<close>, \<^verbatim>\<open>local.engine\<close> and \<^verbatim>\<open>local.docCollection.doc.guid\<close>.
\<close>

record workspace =
  workspace_id :: string
  workspace_flavour :: string
  workspace_meta :: workspace_metadata
  workspace_engine :: engine
  root_guid :: string

text \<open>\<^verbatim>\<open>applyUpdate\<close> on the root document and on a subdocument; the runtime may throw.\<close>

definition apply_root :: "env \<Rightarrow> bytes \<Rightarrow> init_ctx \<Rightarrow> error option \<times> init_ctx" where
  "apply_root env b ctx =
     (case applyUpdateR env b of
        Some err \<Rightarrow> (Some err, ctx)
      | None \<Rightarrow>
          (None, ctx\<lparr>docCollection :=
                       (docCollection ctx)\<lparr>root_updates := root_updates (docCollection ctx) @ [b]\<rparr>\<rparr>))"

definition apply_subdoc :: "env \<Rightarrow> string \<Rightarrow> bytes \<Rightarrow> init_ctx \<Rightarrow> error option \<times> init_ctx" where
  "apply_subdoc env g b ctx =
     (case applyUpdateR env b of
        Some err \<Rightarrow> (Some err, ctx)
      | None \<Rightarrow>
          (None, ctx\<lparr>docCollection :=
                       (docCollection ctx)\<lparr>subdoc_updates :=
                          (subdoc_updates (docCollection ctx))
                            (g := subdoc_updates (docCollection ctx) g @ [b])\<rparr>\<rparr>))"

text \<open>The loop over the subdocuments of the new root document.\<close>

fun copy_subdocs :: "env \<Rightarrow> string list \<Rightarrow> init_ctx \<Rightarrow> error option \<times> init_ctx" where
  "copy_subdocs env [] ctx = (None, ctx)"
| "copy_subdocs env (g # gs) ctx =
     (case getDocR env g of
        Inl err \<Rightarrow> (Some err, ctx)
      | Inr None \<Rightarrow> copy_subdocs env gs ctx
      | Inr (Some r) \<Rightarrow>
          (case apply_subdoc env g (bin r) ctx of
             (Some err, ctx') \<Rightarrow> (Some err, ctx')
           | (None, ctx') \<Rightarrow> copy_subdocs env gs ctx'))"

text \<open>The loop over the local blob list.\<close>

fun copy_blobs :: "env \<Rightarrow> string list \<Rightarrow> init_ctx \<Rightarrow> error option \<times> init_ctx" where
  "copy_blobs env [] ctx = (None, ctx)"
| "copy_blobs env (k # ks) ctx =
     (case blobGetR env k of
        Inl err \<Rightarrow> (Some err, ctx)
      | Inr None \<Rightarrow> copy_blobs env ks ctx
      | Inr (Some b) \<Rightarrow>
          (case blobSetR env b of
             Some err \<Rightarrow> (Some err, ctx)
           | None \<Rightarrow> copy_blobs env ks (ctx\<lparr>blobStorage := blob_set b (blobStorage ctx)\<rparr>)))"

text \<open>The initializer the transform hands to the factory.\<close>

definition transform_initial :: "env \<Rightarrow> workspace \<Rightarrow> string \<Rightarrow> initializer" where
  "transform_initial env local accountId ctx =
     (case getDocR env (root_guid local) of
        Inl err \<Rightarrow> (Some err, ctx)
      | Inr rootDoc \<Rightarrow>
          (case (case rootDoc of None \<Rightarrow> (None, ctx) | Some r \<Rightarrow> apply_root env (bin r) ctx) of
             (Some err, ctx1) \<Rightarrow> (Some err, ctx1)
           | (None, ctx1) \<Rightarrow>
               (case copy_subdocs env (getSubdocs env (root_updates (docCollection ctx1))) ctx1 of
                  (Some err, ctx2) \<Rightarrow> (Some err, ctx2)
                | (None, ctx2) \<Rightarrow>
                    (case transformWorkspaceDBLocalToCloud env (workspace_id local)
                            (coll_id (docCollection ctx2)) accountId (docStorage ctx2) of
                       (Some err, ds) \<Rightarrow> (Some err, ctx2\<lparr>docStorage := ds\<rparr>)
                     | (None, ds) \<Rightarrow>
                         (case blob (workspace_engine local) of
                            Inl err \<Rightarrow> (Some err, ctx2\<lparr>docStorage := ds\<rparr>)
                          | Inr _ \<Rightarrow>
                              (case blobListR env of
                                 Inl err \<Rightarrow> (Some err, ctx2\<lparr>docStorage := ds\<rparr>)
                               | Inr blobList \<Rightarrow>
                                   copy_blobs env blobList (ctx2\<lparr>docStorage := ds\<rparr>)))))))"

text \<open>
  Modelled from the spec: \<^verbatim>\<open>assertEquals\<close> is not among the source files; it throws when its
  two arguments differ and returns otherwise.
\<close>

definition assertEquals :: "string \<Rightarrow> string \<Rightarrow> error option" where
  "assertEquals val expected = (if val = expected then None else Some AssertEqualsFailed)"

text \<open>
  \<^verbatim>\<open>transformLocalToCloud\<close>.  \<^verbatim>\<open>WorkspaceDestroyService\<close> is not among the source files: its
  \<^verbatim>\<open>deleteWorkspace\<close> is the event \<open>DeleteWorkspace\<close> with the outcome the environment gives.
\<close>

definition transformLocalToCloud ::
  "env \<Rightarrow> provider list \<Rightarrow> workspace \<Rightarrow> string \<Rightarrow> string \<Rightarrow> world
     \<Rightarrow> (error + workspace_metadata) \<times> world" where
  "transformLocalToCloud env providers local accountId flavour w =
     (case assertEquals (workspace_flavour local) ''local'' of
        Some err \<Rightarrow> (Inl err, w)
      | None \<Rightarrow>
          (case doc (workspace_engine local) of
             Inl err \<Rightarrow> (Inl err, w)
           | Inr _ \<Rightarrow>
               (case factory_create env providers flavour (transform_initial env local accountId) w of
                  (Inl err, w1) \<Rightarrow> (Inl err, w1)
                | (Inr newMetadata, w1) \<Rightarrow>
                    (let w2 = emit (DeleteWorkspace (workspace_meta local)) w1 in
                     case deleteWorkspaceR env of
                       Some err \<Rightarrow> (Inl err, w2)
                     | None \<Rightarrow> (Inr newMetadata, w2)))))"

section \<open>Notions used to state the properties of creation and transform\<close>

text \<open>
  The events a run added to the trace, whether an event is a call of
  \<^verbatim>\<open>destroy.deleteWorkspace\<close>, and the handles a provider passes to the initializer (none
  when the cloud mutation fails before the initializer is reached).
\<close>

fun is_delete :: "event \<Rightarrow> bool" where
  "is_delete (DeleteWorkspace m) = True"
| "is_delete ev = False"

definition new_events :: "world \<Rightarrow> world \<Rightarrow> event list" where
  "new_events w w' = drop (length (trace w)) (trace w')"

definition initializer_context :: "provider \<Rightarrow> env \<Rightarrow> world \<Rightarrow> init_ctx option" where
  "initializer_context p env w =
     (case p of
        LocalProvider \<Rightarrow> Some (open_handles ''local'' (nanoid env) w)
      | CloudProvider serverId \<Rightarrow>
          (case gqlCreateWorkspaceR env of
             Inl err \<Rightarrow> None
           | Inr workspaceId \<Rightarrow> Some (open_handles serverId workspaceId w)))"


text \<open>
  What a successful transform copies: the update of a document the local storage has, the
  blobs of the listed keys the local storage has, and for each subdocument the updates it
  ends with.
\<close>

definition doc_bins :: "env \<Rightarrow> string \<Rightarrow> bytes list" where
  "doc_bins env g = (case getDocR env g of Inr (Some r) \<Rightarrow> [bin r] | _ \<Rightarrow> [])"

definition present_blobs :: "env \<Rightarrow> string list \<Rightarrow> blob_record list" where
  "present_blobs env ks =
     concat (map (\<lambda>k. case blobGetR env k of Inr (Some b) \<Rightarrow> [b] | _ \<Rightarrow> []) ks)"

definition copied_subdocs :: "env \<Rightarrow> string list \<Rightarrow> (string \<Rightarrow> bytes list) \<Rightarrow> string \<Rightarrow> bytes list" where
  "copied_subdocs env gs upd g =
     upd g @ concat (map (\<lambda>g'. if g' = g then doc_bins env g else []) gs)"

text \<open>
  A concrete migration: the local workspace \<open>W1\<close> with a root document, the subdocuments
  \<open>S1\<close> (stored) and \<open>S9\<close> (not stored), the listed blob keys \<open>b0\<close> (not stored) and \<open>b1\<close>
  (stored), and a cloud server that names the new workspace \<open>W2\<close>.  In \<open>broken_env\<close> the
  second listed blob cannot be read.
\<close>

definition demo_blob :: blob_record where
  "demo_blob = \<lparr>key = ''b1'', data = [1, 2, 3], mime = ''image/png'', size_of = None,
                createdAt = None\<rparr>"

definition demo_meta :: workspace_metadata where
  "demo_meta = \<lparr>ws_id = ''W1'', ws_flavour = ''local'', initialized = None\<rparr>"

definition demo_local :: workspace where
  "demo_local =
     \<lparr>workspace_id = ''W1'', workspace_flavour = ''local'', workspace_meta = demo_meta,
      workspace_engine =
        \<lparr>worker = Some \<lparr>docFrontend = 1, blobFrontend = 2, awarenessFrontend = 3\<rparr>,
         started = True, disposables = [], calls = []\<rparr>,
      root_guid = ''W1''\<rparr>"

definition demo_env :: env where
  "demo_env =
     \<lparr>nanoid = ''L2'', gqlCreateWorkspaceR = Inr ''W2'', pushDocUpdateR = (\<lambda>r. None),
      waitForLoadedR = None, encodeStateAsUpdate = concat,
      getSubdocs = (\<lambda>us. if us = [] then [] else [''S1'', ''S9'']),
      applyUpdateR = (\<lambda>b. None), deleteWorkspaceR = None,
      getDocR = (\<lambda>g. if g = ''W1'' then Inr (Some \<lparr>docId = ''W1'', bin = [1]\<rparr>)
                     else if g = ''S1'' then Inr (Some \<lparr>docId = ''S1'', bin = [2]\<rparr>)
                     else Inr None),
      blobListR = Inr [''b0'', ''b1''],
      blobGetR = (\<lambda>k. if k = ''b1'' then Inr (Some demo_blob) else Inr None),
      blobSetR = (\<lambda>b. None),
      transformWorkspaceDBLocalToCloud = (\<lambda>localId newId accountId s. (None, s))\<rparr>"

definition broken_env :: env where
  "broken_env =
     demo_env\<lparr>blobListR := Inr [''b1'', ''b2''],
              blobGetR := (\<lambda>k. if k = ''b1'' then Inr (Some demo_blob)
                                else Inl (Thrown ''read failed''))\<rparr>"

definition demo_world :: world where
  "demo_world =
     \<lparr>trace = [], localStorageIds = Some [''W1''], docStores = (\<lambda>p g. []),
      blobStores = (\<lambda>p. Map.empty)\<rparr>"

definition demo_providers :: "provider list" where
  "demo_providers = [LocalProvider, CloudProvider ''affine-cloud'']"


section \<open>Properties of WorkspaceEngine\<close>

lemma start_sets_started: "started (snd (start e env))"
  by (auto simp: start_def start_frontends_def Let_def doc_def awareness_def
      split: option.splits sum.splits prod.splits)

lemma start_when_started: "started e \<Longrightarrow> start e env = (Inl EngineAlreadyStarted, e)"
  by (simp add: start_def)

lemma dead_step:
  "started e \<Longrightarrow> worker e = None \<Longrightarrow> engine_step e x = (dead_answer x, e)"
  by (cases x) (simp_all add: start_def doc_def blob_def awareness_def answer_of_def)

lemma dead_run:
  "started e \<Longrightarrow> worker e = None \<Longrightarrow> engine_run e xs = map dead_answer xs"
  by (induction xs) (simp_all add: dead_step)

text \<open>
  C3. On an engine whose worker handle has not been constructed, \<^verbatim>\<open>doc\<close>, \<^verbatim>\<open>blob\<close> and
  \<^verbatim>\<open>awareness\<close> each throw "Engine is not initialized"; and whatever an earlier call of
  \<^verbatim>\<open>start()\<close> did (returned or threw, with any answers of the collaborators), the next call
  of \<^verbatim>\<open>start()\<close> throws "Engine is already started" and changes nothing.
\<close>

theorem engine_not_initialized_already_started:
  "(worker e = None \<longrightarrow>
      doc e = Inl EngineNotInitialized \<and> blob e = Inl EngineNotInitialized \<and>
      awareness e = Inl EngineNotInitialized) \<and>
   start (snd (start e env)) env' = (Inl EngineAlreadyStarted, snd (start e env))"
  by (simp add: doc_def blob_def awareness_def start_when_started start_sets_started)

theorem engine_not_initialized_already_started_witness:
  "worker new_engine = None \<and>
   doc new_engine = Inl EngineNotInitialized \<and> blob new_engine = Inl EngineNotInitialized \<and>
   awareness new_engine = Inl EngineNotInitialized \<and>
   fst (start new_engine working_env) = Inr () \<and>
   fst (start (snd (start new_engine working_env)) working_env) = Inl EngineAlreadyStarted"
proof -
  have "fst (start new_engine working_env) = Inr ()"
    by (simp add: start_def start_frontends_def new_engine_def working_env_def Let_def
        doc_def awareness_def)
  then show ?thesis
    using engine_not_initialized_already_started [of new_engine working_env working_env]
    by (simp add: new_engine_def)
qed

text \<open>
  C9. When the worker provider throws inside \<^verbatim>\<open>start()\<close> (the event bus having returned),
  the exception leaves the engine with \<^verbatim>\<open>started = true\<close> and no worker; from then on every
  \<^verbatim>\<open>start()\<close> throws "Engine is already started" and every accessor throws "Engine is not
  initialized", whatever sequence of operations follows.
\<close>

theorem start_not_atomic_on_error:
  assumes "\<not> started e" and "worker e = None"
    and "emitR env = None" and "openWorkerR env = Inl err"
  shows "fst (start e env) = Inl err
      \<and> started (snd (start e env)) \<and> worker (snd (start e env)) = None
      \<and> engine_run (snd (start e env)) ops = map dead_answer ops"
proof -
  let ?e' = "snd (start e env)"
  have r: "fst (start e env) = Inl err" and s: "started ?e'" and w: "worker ?e' = None"
    using assms by (simp_all add: start_def Let_def)
  from s w have "engine_run ?e' ops = map dead_answer ops" by (rule dead_run)
  with r s w show ?thesis by simp
qed

theorem start_not_atomic_on_error_witness:
  "\<not> started new_engine \<and> worker new_engine = None \<and>
   emitR failing_worker_env = None \<and>
   openWorkerR failing_worker_env = Inl (Thrown ''worker unavailable'') \<and>
   fst (start new_engine failing_worker_env) = Inl (Thrown ''worker unavailable'') \<and>
   engine_run (snd (start new_engine failing_worker_env))
     [OpStart working_env, OpDoc, OpBlob, OpAwareness, OpStart failing_worker_env] =
     [Raised EngineAlreadyStarted, Raised EngineNotInitialized, Raised EngineNotInitialized,
      Raised EngineNotInitialized, Raised EngineAlreadyStarted]"
proof -
  have a: "\<not> started new_engine" and b: "worker new_engine = None"
    by (simp_all add: new_engine_def)
  have c: "emitR failing_worker_env = None"
    and d: "openWorkerR failing_worker_env = Inl (Thrown ''worker unavailable'')"
    by (simp_all add: failing_worker_env_def)
  show ?thesis
    using a b c d
      start_not_atomic_on_error [OF a b c d,
        of "[OpStart working_env, OpDoc, OpBlob, OpAwareness, OpStart failing_worker_env]"]
    by simp
qed

section \<open>Properties of the backend registry\<close>

lemma table_lookup:
  "AvailableStorageImplementations name = Some c \<longleftrightarrow> class_name c = name"
  by (cases c)
     (auto simp: AvailableStorageImplementations_def storages_def cloud_def idbv1_def idb_def)

lemma class_name_not_inherited: "class_name c \<notin> set object_prototype_members"
  by (cases c) (simp_all add: object_prototype_members_def)

text \<open>
  C7 does not hold as stated: resolving a name that is not registered throws nothing and
  yields \<^verbatim>\<open>undefined\<close>.
\<close>

theorem unknown_backend_not_fatal:
  "''SqliteDocStorage'' \<notin> class_name ` set storages \<and>
   getAvailableStorageImplementations ''SqliteDocStorage'' = Inr Undefined"
  by (simp add: getAvailableStorageImplementations_def AvailableStorageImplementations_def
      storages_def cloud_def idbv1_def idb_def object_prototype_members_def)

text \<open>
  C7, amended.  Resolving never throws.  It yields a storage class exactly when the name
  equals that class's name, character for character; for every other name it yields
  \<^verbatim>\<open>undefined\<close>, or the inherited member when the name is one of \<^verbatim>\<open>Object.prototype\<close>.
\<close>

theorem backend_resolved_by_exact_name:
  "(\<forall>c. getAvailableStorageImplementations name = Inr (Registered c) \<longleftrightarrow> class_name c = name) \<and>
   (name \<notin> class_name ` set storages \<longrightarrow>
      getAvailableStorageImplementations name =
        Inr (if name \<in> set object_prototype_members then Inherited name else Undefined)) \<and>
   (\<forall>err. getAvailableStorageImplementations name \<noteq> Inl err)"
proof (intro conjI allI impI)
  fix c
  show "getAvailableStorageImplementations name = Inr (Registered c) \<longleftrightarrow> class_name c = name"
  proof -
    have "getAvailableStorageImplementations name = Inr (Registered c)
            \<longleftrightarrow> AvailableStorageImplementations name = Some c"
      by (simp add: getAvailableStorageImplementations_def split: option.splits)
    then show ?thesis by (simp add: table_lookup)
  qed
next
  assume n: "name \<notin> class_name ` set storages"
  have "AvailableStorageImplementations name = None"
  proof (cases "AvailableStorageImplementations name")
    case (Some c)
    then have "class_name c = name" by (simp add: table_lookup)
    moreover have "c \<in> set storages"
      by (cases c) (simp_all add: storages_def cloud_def idbv1_def idb_def)
    ultimately show ?thesis using n by blast
  qed simp
  then show "getAvailableStorageImplementations name =
        Inr (if name \<in> set object_prototype_members then Inherited name else Undefined)"
    by (simp add: getAvailableStorageImplementations_def)
next
  fix err
  show "getAvailableStorageImplementations name \<noteq> Inl err"
    by (simp add: getAvailableStorageImplementations_def)
qed

theorem backend_resolved_by_exact_name_witness:
  "getAvailableStorageImplementations ''CloudBlobStorage'' = Inr (Registered CloudBlobStorage) \<and>
   getAvailableStorageImplementations ''cloudblobstorage'' = Inr Undefined \<and>
   getAvailableStorageImplementations ''toString'' = Inr (Inherited ''toString'')"
proof -
  have a: "''cloudblobstorage'' \<notin> class_name ` set storages"
    and b: "''toString'' \<notin> class_name ` set storages"
    by (simp_all add: storages_def cloud_def idbv1_def idb_def)
  show ?thesis
    using backend_resolved_by_exact_name [of "''CloudBlobStorage''"]
      backend_resolved_by_exact_name [of "''cloudblobstorage''"]
      backend_resolved_by_exact_name [of "''toString''"] a b
    by (simp add: object_prototype_members_def)
qed

section \<open>Properties of CloudBlobStorage.get\<close>

text \<open>
  C5. When the fetch returns a response with status 404, \<^verbatim>\<open>get\<close> returns null.  When
  \<^verbatim>\<open>get\<close> throws, either the fetch itself threw that exception, or the response was not a
  404 and reading its body threw (the exception is then wrapped as a download error).
\<close>

theorem blob_get_null_on_404:
  "(\<forall>res. fetch (blob_path spaceId k) = Inr res \<and> status res = 404 \<longrightarrow>
      CloudBlobStorage_get fetch now spaceId k = Inr None) \<and>
   (\<forall>err. CloudBlobStorage_get fetch now spaceId k = Inl err \<longrightarrow>
      fetch (blob_path spaceId k) = Inl err \<or>
      (\<exists>res cause. fetch (blob_path spaceId k) = Inr res \<and> status res \<noteq> 404 \<and>
         err = BlobDownloadError cause \<and>
         (blobR res = Inl cause \<or> (\<exists>b. blobR res = Inr b \<and> arrayBufferR b = Inl cause))))"
  by (auto simp: CloudBlobStorage_get_def split: sum.splits if_splits)

theorem blob_get_null_on_404_witness:
  "CloudBlobStorage_get
     (\<lambda>p. Inr \<lparr>status = 404, blobR = Inl (Thrown ''no body''), last_modified = None\<rparr>)
     0 ''w1'' ''b1'' = Inr None \<and>
   CloudBlobStorage_get (\<lambda>p. Inl (Thrown ''network'')) 0 ''w1'' ''b1'' = Inl (Thrown ''network'')"
  using blob_get_null_on_404
    [of "\<lambda>p. Inr \<lparr>status = 404, blobR = Inl (Thrown ''no body''), last_modified = None\<rparr>"
        "''w1''" "''b1''" 0]
    blob_get_null_on_404 [of "\<lambda>p. Inl (Thrown ''network'')" "''w1''" "''b1''" 0]
  by (simp add: CloudBlobStorage_get_def)

section \<open>Properties of addImages\<close>

text \<open>
  C6 does not hold as stated: with a limit of 1000 bytes, the batch of a 10-byte and a
  2000-byte image produces the notice and nothing else; the 10-byte image gets no block,
  although alone it is ingested.
\<close>

theorem oversized_file_aborts_batch:
  "addImages empty_editor env_1000 [small_png, big_png] =
     (Inr [], empty_editor\<lparr>toasts := [''You can only upload files less than 1 kB'']\<rparr>) \<and>
   fst (addImages empty_editor env_1000 [small_png]) = Inr [''block'']"
  by (simp add: addImages_def empty_editor_def env_1000_def small_png_def big_png_def
      is_image_def startsWith_def size_notice_def IMAGE_STACK_GAP_def updateElement_def Let_def
      upload_all_def)

text \<open>
  C6, amended.  When the image service is present and some image file of the batch exceeds
  its maximum file size, one notice is produced and the whole batch is aborted: the call
  returns the empty list, and no block is created, uploaded to or selected.
\<close>

theorem oversized_file_notice_and_abort:
  assumes "imageService env = Some maxFileSize"
    and "f \<in> set files" and "is_image f" and "file_size f > maxFileSize"
  shows "addImages ed env files =
           (Inr [], ed\<lparr>toasts := toasts ed @ [size_notice env maxFileSize]\<rparr>)"
proof -
  have "f \<in> set (filter is_image files)" using assms by simp
  then have ne: "filter is_image files \<noteq> []" by (auto simp: filter_empty_conv)
  have "list_ex (\<lambda>f. file_size f > maxFileSize) (filter is_image files)"
    using assms by (auto simp: list_ex_iff)
  with ne assms(1) show ?thesis by (simp add: addImages_def)
qed

theorem oversized_file_notice_and_abort_witness:
  "imageService env_1000 = Some 1000 \<and> big_png \<in> set [small_png, big_png] \<and>
   is_image big_png \<and> file_size big_png > 1000 \<and>
   addImages empty_editor env_1000 [small_png, big_png] =
     (Inr [], empty_editor\<lparr>toasts := toasts empty_editor @ [size_notice env_1000 1000]\<rparr>)"
proof -
  have a: "imageService env_1000 = Some 1000" by (simp add: env_1000_def)
  have b: "big_png \<in> set [small_png, big_png]" by simp
  have c: "is_image big_png" by (simp add: is_image_def startsWith_def big_png_def)
  have d: "file_size big_png > 1000" by (simp add: big_png_def)
  show ?thesis
    using a b c d oversized_file_notice_and_abort [OF a b c d, of empty_editor] by simp
qed

section \<open>Properties of the revalidation refresh\<close>

lemma mset_sort_insert: "mset (sort_insert cmp x xs) = add_mset x (mset xs)"
  by (induction xs) simp_all

lemma mset_js_sort: "mset (js_sort cmp xs) = mset xs"
  by (induction xs) (simp_all add: js_sort_def mset_sort_insert)

lemma set_js_sort: "set (js_sort cmp xs) = set xs"
  using mset_js_sort [of cmp xs] by (metis set_mset_mset)

lemma sorted_sort_insert:
  assumes tot: "\<forall>a\<in>S. \<forall>b\<in>S. cmp a b \<le> 0 \<or> cmp b a \<le> 0"
    and trans: "\<forall>a\<in>S. \<forall>b\<in>S. \<forall>c\<in>S. cmp a b \<le> 0 \<and> cmp b c \<le> 0 \<longrightarrow> cmp a c \<le> 0"
  shows "x \<in> S \<Longrightarrow> set xs \<subseteq> S \<Longrightarrow> sorted_wrt (\<lambda>a b. cmp a b \<le> 0) xs
           \<Longrightarrow> sorted_wrt (\<lambda>a b. cmp a b \<le> 0) (sort_insert cmp x xs)"
proof (induction xs)
  case Nil
  then show ?case by simp
next
  case (Cons y ys)
  show ?case
  proof (cases "cmp x y \<le> 0")
    case True
    have "cmp x z \<le> 0" if "z \<in> set ys" for z
    proof -
      have "cmp y z \<le> 0" using Cons.prems(3) that by simp
      with True trans Cons.prems(1,2) that show ?thesis by (meson list.set_intros subsetD)
    qed
    with True Cons.prems(3) show ?thesis by simp
  next
    case False
    then have yx: "cmp y x \<le> 0" using tot Cons.prems(1,2) by auto
    have "sorted_wrt (\<lambda>a b. cmp a b \<le> 0) (sort_insert cmp x ys)"
      using Cons by simp
    moreover have "\<forall>z\<in>set (sort_insert cmp x ys). cmp y z \<le> 0"
    proof
      fix z assume "z \<in> set (sort_insert cmp x ys)"
      then have "z \<in># mset (sort_insert cmp x ys)" by simp
      then have "z = x \<or> z \<in> set ys" by (simp add: mset_sort_insert)
      with yx Cons.prems(3) show "cmp y z \<le> 0" by auto
    qed
    ultimately show ?thesis using False by simp
  qed
qed

lemma sorted_js_sort:
  assumes tot: "\<forall>a\<in>S. \<forall>b\<in>S. cmp a b \<le> 0 \<or> cmp b a \<le> 0"
    and trans: "\<forall>a\<in>S. \<forall>b\<in>S. \<forall>c\<in>S. cmp a b \<le> 0 \<and> cmp b c \<le> 0 \<longrightarrow> cmp a c \<le> 0"
  shows "set xs \<subseteq> S \<Longrightarrow> sorted_wrt (\<lambda>a b. cmp a b \<le> 0) (js_sort cmp xs)"
proof (induction xs)
  case Nil
  then show ?case by (simp add: js_sort_def)
next
  case (Cons x xs)
  have "sorted_wrt (\<lambda>a b. cmp a b \<le> 0) (sort_insert cmp x (js_sort cmp xs))"
    using Cons by (intro sorted_sort_insert [OF tot trans]) (simp_all add: set_js_sort)
  then show ?case by (simp add: js_sort_def)
qed

lemma project_success:
  assumes "accountId \<noteq> []"
  shows "revalidate_project localeCompare serverId (Some accountId) (Inr fetched) st =
     (let workspaces = map (\<lambda>g. \<lparr>ws_id = gql_id g, ws_flavour = serverId,
                                  initialized = Some (gql_initialized g)\<rparr>) fetched;
          sortedWs = js_sort (by_id localeCompare) workspaces
      in st\<lparr>globalState := (globalState st)(getCloudWorkspaceCacheKey serverId @ accountId \<mapsto> sortedWs),
            workspaces_value := sortedWs,
            workspaces_emitted := (if workspaces_value st = sortedWs then workspaces_emitted st
                                   else workspaces_emitted st @ [sortedWs]),
            isRevalidating := False\<rparr>)"
  using assms
  by (simp add: revalidate_project_def fetch_workspaces_def commit_workspaces_def
      workspaces_next_def Let_def)

lemma revalidate_success:
  assumes acc: "accountId \<noteq> []"
    and k: "cacheKey = getCloudWorkspaceCacheKey serverId @ accountId"
    and held: "held = (if identity st = Some (Some accountId) then workspaces_value st
                       else (case globalState st cacheKey of None \<Rightarrow> [] | Some cached \<Rightarrow> cached))"
    and sw: "switched = (if identity st = Some (Some accountId) then [] else [held])"
    and srt: "sortedWs = js_sort (by_id localeCompare)
                (map (\<lambda>g. \<lparr>ws_id = gql_id g, ws_flavour = serverId,
                              initialized = Some (gql_initialized g)\<rparr>) fetched)"
  shows "revalidate localeCompare serverId (Some accountId) (Inr fetched) st =
     st\<lparr>globalState := (globalState st)(cacheKey \<mapsto> sortedWs),
        workspaces_value := sortedWs,
        workspaces_emitted :=
          workspaces_emitted st @ switched @ (if held = sortedWs then [] else [sortedWs]),
        isRevalidating := False,
        identity := Some (Some accountId)\<rparr>"
proof (cases "identity st = Some (Some accountId)")
  case True
  then have "st\<lparr>identity := Some (Some accountId)\<rparr> = st" by simp
  then show ?thesis
    using True acc
    by (simp add: revalidate_def project_success Let_def k held sw srt)
next
  case False
  then show ?thesis
    using acc
    by (simp add: revalidate_def project_success Let_def k held sw srt revalidate_onSwitch_def
        workspaces_next_def)
qed

lemma ws_id_mem:
  "a \<in> set (map (\<lambda>g. \<lparr>ws_id = gql_id g, ws_flavour = serverId,
                         initialized = Some (gql_initialized g)\<rparr>) fetched)
   \<Longrightarrow> ws_id a \<in> gql_id ` set fetched"
  by auto

text \<open>
  C4. One call of \<^verbatim>\<open>revalidate()\<close> for an account whose request succeeds, with a comparator
  that is total and transitive on the fetched ids.  The list written is the fetched list
  sorted by id (ordered by the comparator, same elements with the same multiplicities).  It
  is stored in the cache under \<^verbatim>\<open>cloud-workspace:\<close> (for the server \<^verbatim>\<open>affine-cloud\<close>) or
  \<^verbatim>\<open>selfhosted-workspace-<server id>:\<close> followed by the account id, and no other key is
  written.  It becomes the value of \<^verbatim>\<open>workspaces$\<close>.  It is pushed to the observers exactly
  when it differs from the list \<^verbatim>\<open>workspaces$\<close> holds when the handler runs, and an equal list
  is not pushed again.  For an unchanged account the list held is the value before the
  call; after a switch to this account (the first call included) it is the cached list, or
  the empty list, which the switch callback has pushed just before.
\<close>

theorem refresh_sorts_caches_emits_on_change:
  assumes acc: "accountId \<noteq> []"
    and tot: "\<forall>a\<in>gql_id ` set fetched. \<forall>b\<in>gql_id ` set fetched.
                localeCompare a b \<le> 0 \<or> localeCompare b a \<le> 0"
    and trans: "\<forall>a\<in>gql_id ` set fetched. \<forall>b\<in>gql_id ` set fetched. \<forall>c\<in>gql_id ` set fetched.
                localeCompare a b \<le> 0 \<and> localeCompare b c \<le> 0 \<longrightarrow> localeCompare a c \<le> 0"
    and ws: "workspaces = map (\<lambda>g. \<lparr>ws_id = gql_id g, ws_flavour = serverId,
                                     initialized = Some (gql_initialized g)\<rparr>) fetched"
    and k: "cacheKey = (if serverId = ''affine-cloud'' then ''cloud-workspace:''
                        else ''selfhosted-workspace-'' @ serverId @ '':'') @ accountId"
    and held: "held = (if identity st = Some (Some accountId) then workspaces_value st
                       else (case globalState st cacheKey of None \<Rightarrow> [] | Some cached \<Rightarrow> cached))"
    and sw: "switched = (if identity st = Some (Some accountId) then [] else [held])"
    and st': "st' = revalidate localeCompare serverId (Some accountId) (Inr fetched) st"
    and srt: "sortedWs = js_sort (by_id localeCompare) workspaces"
  shows "sorted_wrt (\<lambda>a b. localeCompare (ws_id a) (ws_id b) \<le> 0) sortedWs
       \<and> mset sortedWs = mset workspaces
       \<and> globalState st' = (globalState st)(cacheKey \<mapsto> sortedWs)
       \<and> workspaces_value st' = sortedWs
       \<and> workspaces_emitted st' =
           workspaces_emitted st @ switched @ (if held = sortedWs then [] else [sortedWs])"
proof -
  have mem: "ws_id a \<in> gql_id ` set fetched" if "a \<in> set workspaces" for a
    using that unfolding ws by (rule ws_id_mem)
  have t1: "\<forall>a\<in>set workspaces. \<forall>b\<in>set workspaces.
              by_id localeCompare a b \<le> 0 \<or> by_id localeCompare b a \<le> 0"
  proof (intro ballI)
    fix a b assume a: "a \<in> set workspaces" and b: "b \<in> set workspaces"
    show "by_id localeCompare a b \<le> 0 \<or> by_id localeCompare b a \<le> 0"
      unfolding by_id_def by (rule tot [rule_format, OF mem [OF a] mem [OF b]])
  qed
  have t2: "\<forall>a\<in>set workspaces. \<forall>b\<in>set workspaces. \<forall>c\<in>set workspaces.
              by_id localeCompare a b \<le> 0 \<and> by_id localeCompare b c \<le> 0
              \<longrightarrow> by_id localeCompare a c \<le> 0"
  proof (intro ballI impI)
    fix a b c
    assume a: "a \<in> set workspaces" and b: "b \<in> set workspaces" and c: "c \<in> set workspaces"
      and h: "by_id localeCompare a b \<le> 0 \<and> by_id localeCompare b c \<le> 0"
    show "by_id localeCompare a c \<le> 0"
      using h unfolding by_id_def
      by (rule trans [rule_format, OF mem [OF a] mem [OF b] mem [OF c]])
  qed
  have "sorted_wrt (\<lambda>a b. by_id localeCompare a b \<le> 0) (js_sort (by_id localeCompare) workspaces)"
    by (rule sorted_js_sort [OF t1 t2]) simp
  then have s1: "sorted_wrt (\<lambda>a b. localeCompare (ws_id a) (ws_id b) \<le> 0) sortedWs"
    by (simp add: srt by_id_def)
  have s2: "mset sortedWs = mset workspaces"
    by (simp add: srt mset_js_sort)
  have k': "cacheKey = getCloudWorkspaceCacheKey serverId @ accountId"
    by (simp add: k getCloudWorkspaceCacheKey_def)
  have st'': "st' = st\<lparr>globalState := (globalState st)(cacheKey \<mapsto> sortedWs),
        workspaces_value := sortedWs,
        workspaces_emitted :=
          workspaces_emitted st @ switched @ (if held = sortedWs then [] else [sortedWs]),
        isRevalidating := False,
        identity := Some (Some accountId)\<rparr>"
    unfolding st' by (rule revalidate_success [OF acc k' held sw srt [unfolded ws]])
  show ?thesis
    using s1 s2 by (simp add: st'')
qed

theorem refresh_sorts_caches_emits_on_change_witness:
  "''acct'' \<noteq> []
   \<and> code_compare ''w1'' ''w2'' \<le> 0
   \<and> globalState once_refreshed = [''cloud-workspace:acct'' \<mapsto> sorted_two]
   \<and> workspaces_value once_refreshed = sorted_two
   \<and> workspaces_emitted once_refreshed = [[], sorted_two]
   \<and> workspaces_emitted
        (revalidate code_compare ''affine-cloud'' (Some ''acct'') (Inr two_workspaces) once_refreshed)
       = [[], sorted_two]
   \<and> workspaces_emitted
        (revalidate code_compare ''affine-cloud'' (Some ''other'') (Inr two_workspaces) once_refreshed)
       = [[], sorted_two, [], sorted_two]
   \<and> dom (globalState
        (revalidate code_compare ''srv1'' (Some ''acct'') (Inr two_workspaces) fresh_cloud_state))
       = {''selfhosted-workspace-srv1:acct''}"
proof -
  have a: "''acct'' \<noteq> []" and a': "''other'' \<noteq> []" by simp_all
  have b: "\<forall>a\<in>gql_id ` set two_workspaces. \<forall>b\<in>gql_id ` set two_workspaces.
         code_compare a b \<le> 0 \<or> code_compare b a \<le> 0"
    by (simp add: two_workspaces_def)
  have c: "\<forall>a\<in>gql_id ` set two_workspaces. \<forall>b\<in>gql_id ` set two_workspaces.
       \<forall>c\<in>gql_id ` set two_workspaces.
         code_compare a b \<le> 0 \<and> code_compare b c \<le> 0 \<longrightarrow> code_compare a c \<le> 0"
    by (simp add: two_workspaces_def)
  have d: "js_sort (by_id code_compare)
             (map (\<lambda>g. \<lparr>ws_id = gql_id g, ws_flavour = ''affine-cloud'',
                         initialized = Some (gql_initialized g)\<rparr>) two_workspaces) = sorted_two"
    by (simp add: two_workspaces_def js_sort_def by_id_def sorted_two_def)
  note t1 = refresh_sorts_caches_emits_on_change [OF a b c refl refl refl refl refl refl,
        of "''affine-cloud''" fresh_cloud_state, unfolded d, folded once_refreshed_def]
  have e1: "globalState once_refreshed = [''cloud-workspace:acct'' \<mapsto> sorted_two]"
    using t1 by (simp add: fresh_cloud_state_def)
  have e2: "workspaces_value once_refreshed = sorted_two"
    using t1 by simp
  have e3: "workspaces_emitted once_refreshed = [[], sorted_two]"
    using t1 by (simp add: fresh_cloud_state_def sorted_two_def)
  have e0: "identity once_refreshed = Some (Some ''acct'')"
    by (simp add: once_refreshed_def revalidate_success [OF a refl refl refl refl])
  note t2 = refresh_sorts_caches_emits_on_change [OF a b c refl refl refl refl refl refl,
        of "''affine-cloud''" once_refreshed, unfolded d]
  have e4: "workspaces_emitted
        (revalidate code_compare ''affine-cloud'' (Some ''acct'') (Inr two_workspaces) once_refreshed)
       = [[], sorted_two]"
    using t2 by (simp add: e0 e2 e3)
  note t3 = refresh_sorts_caches_emits_on_change [OF a' b c refl refl refl refl refl refl,
        of "''affine-cloud''" once_refreshed, unfolded d]
  have e5: "workspaces_emitted
        (revalidate code_compare ''affine-cloud'' (Some ''other'') (Inr two_workspaces) once_refreshed)
       = [[], sorted_two, [], sorted_two]"
    using t3 by (simp add: e0 e1 e3 sorted_two_def)
  note t4 = refresh_sorts_caches_emits_on_change [OF a b c refl refl refl refl refl refl,
        of "''srv1''" fresh_cloud_state]
  have e6: "dom (globalState
        (revalidate code_compare ''srv1'' (Some ''acct'') (Inr two_workspaces) fresh_cloud_state))
       = {''selfhosted-workspace-srv1:acct''}"
    using t4 by (simp add: fresh_cloud_state_def)
  have g: "code_compare ''w1'' ''w2'' \<le> 0" by simp
  from a g e1 e2 e3 e4 e5 e6 show ?thesis by (intro conjI)
qed

section \<open>Properties of workspace creation and of the transform\<close>

lemmas demo_defs = demo_env_def broken_env_def demo_world_def demo_providers_def demo_local_def
  demo_meta_def demo_blob_def

lemmas run_defs = transformLocalToCloud_def factory_create_def createWorkspace_cloud_def
  createWorkspace_local_def transform_initial_def save_collection_def open_handles_def
  written_def emit_def new_collection_def apply_root_def apply_subdoc_def assertEquals_def
  doc_def blob_def blob_set_def pushDocUpdate_def setLocalWorkspaceIds_def
  getLocalWorkspaceIds_def Let_def

lemma demo_run_ok:
  "fst (transformLocalToCloud demo_env demo_providers demo_local ''A1'' ''affine-cloud'' demo_world) =
     Inr \<lparr>ws_id = ''W2'', ws_flavour = ''affine-cloud'', initialized = None\<rparr>"
  by (simp add: demo_defs run_defs)

lemma demo_run_trace:
  "trace (snd (transformLocalToCloud demo_env demo_providers demo_local ''A1'' ''affine-cloud'' demo_world)) =
     [GqlCreateWorkspace, Revalidate ''affine-cloud'', WaitForLoaded ''affine-cloud'',
      DisposeCollection ''W2'', DeleteWorkspace demo_meta]"
  by (simp add: demo_defs run_defs)

lemma trace_emit [simp]: "trace (emit ev w) = trace w @ [ev]"
  by (simp add: emit_def)

lemma trace_written [simp]: "trace (written peer i ctx w) = trace w"
  by (simp add: written_def)

lemma trace_setLocalWorkspaceIds [simp]: "trace (setLocalWorkspaceIds f w) = trace w"
  by (simp add: setLocalWorkspaceIds_def)

lemma open_handles_emit [simp]: "open_handles peer i (emit ev w) = open_handles peer i w"
  by (simp add: open_handles_def emit_def)

lemma createWorkspace_local_events:
  "\<exists>evs. trace (snd (createWorkspace_local env initial w)) = trace w @ evs
         \<and> \<not> list_ex is_delete evs"
  by (simp add: createWorkspace_local_def Let_def split: prod.splits option.splits)

lemma createWorkspace_cloud_events:
  "\<exists>evs. trace (snd (createWorkspace_cloud serverId env initial w)) = trace w @ evs
         \<and> \<not> list_ex is_delete evs"
  by (simp add: createWorkspace_cloud_def Let_def split: prod.splits option.splits sum.splits)

lemma factory_create_events:
  "\<exists>evs. trace (snd (factory_create env providers flavour initial w)) = trace w @ evs
         \<and> \<not> list_ex is_delete evs"
proof (cases "find (\<lambda>x. flavour_of x = flavour) providers")
  case None
  then show ?thesis by (simp add: factory_create_def)
next
  case (Some p)
  then show ?thesis
    using createWorkspace_local_events [of env initial w]
      createWorkspace_cloud_events [of _ env initial w]
    by (cases p) (simp_all add: factory_create_def)
qed

lemma createWorkspace_initial_fails:
  assumes "initializer_context p env w = Some ctx0" and "fst (initial ctx0) = Some err"
  shows "fst (createWorkspace p env initial w) = Inl err"
  using assms
  by (cases p)
     (auto simp: initializer_context_def createWorkspace_local_def createWorkspace_cloud_def
        Let_def split: prod.splits option.splits sum.splits)

text \<open>
  C1. In every run of \<^verbatim>\<open>transformLocalToCloud\<close>: if \<^verbatim>\<open>destroy.deleteWorkspace\<close> is called at
  all, then the creation through the factory (the initializer included) had returned the new
  metadata, the call is for the local workspace's metadata, and it is the last event, after
  everything the creation did.  And if the initializer throws on the handles the chosen
  provider gives it, the run ends in an exception and no \<^verbatim>\<open>deleteWorkspace\<close> call is among
  its events.
\<close>

theorem local_deleted_only_after_creation:
  assumes t: "transformLocalToCloud env providers local accountId flavour w = (r, w')"
  shows "(\<forall>m. DeleteWorkspace m \<in> set (new_events w w') \<longrightarrow>
            (\<exists>md w1. factory_create env providers flavour
                        (transform_initial env local accountId) w = (Inr md, w1)
                    \<and> m = workspace_meta local
                    \<and> trace w' = trace w1 @ [DeleteWorkspace m]))
       \<and> (\<forall>p ctx0 err. find (\<lambda>x. flavour_of x = flavour) providers = Some p
              \<and> initializer_context p env w = Some ctx0
              \<and> fst (transform_initial env local accountId ctx0) = Some err \<longrightarrow>
            (\<exists>e. r = Inl e) \<and> \<not> list_ex is_delete (new_events w w'))"
proof -
  let ?c = "factory_create env providers flavour (transform_initial env local accountId) w"
  obtain evs where evs: "trace (snd ?c) = trace w @ evs" "\<not> list_ex is_delete evs"
    using factory_create_events by blast
  have nodel: "DeleteWorkspace m \<notin> set evs" for m
    using evs(2) by (auto simp: list_ex_iff)
  consider (pre) "\<exists>e. r = Inl e" "w' = w"
    | (fail) e where "fst ?c = Inl e" "r = Inl e" "w' = snd ?c"
    | (ok) md where "fst ?c = Inr md" "w' = emit (DeleteWorkspace (workspace_meta local)) (snd ?c)"
  proof (cases "workspace_flavour local = ''local'' \<and> worker (workspace_engine local) \<noteq> None")
    case False
    then have "(\<exists>e. r = Inl e) \<and> w' = w"
      using t by (auto simp: transformLocalToCloud_def assertEquals_def doc_def
          split: option.splits if_splits)
    with pre show ?thesis by blast
  next
    case True
    show ?thesis
    proof (cases "fst ?c")
      case (Inl e)
      then have "r = Inl e \<and> w' = snd ?c"
        using t True by (auto simp: transformLocalToCloud_def assertEquals_def doc_def
            split: prod.splits)
      with Inl fail show ?thesis by blast
    next
      case (Inr md)
      then have "w' = emit (DeleteWorkspace (workspace_meta local)) (snd ?c)"
        using t True by (auto simp: transformLocalToCloud_def assertEquals_def doc_def Let_def
            split: prod.splits option.splits)
      with Inr ok show ?thesis by blast
    qed
  qed
  then show ?thesis
  proof cases
    case pre
    then show ?thesis by (simp add: new_events_def)
  next
    case fail
    have ne: "new_events w w' = evs" by (simp add: new_events_def fail(3) evs(1))
    show ?thesis using fail(2) evs(2) nodel by (simp add: ne)
  next
    case (ok md)
    have ne: "new_events w w' = evs @ [DeleteWorkspace (workspace_meta local)]"
      by (simp add: new_events_def ok(2) evs(1))
    have c: "?c = (Inr md, snd ?c)" using ok(1) by (metis prod.collapse)
    have first: "\<forall>m. DeleteWorkspace m \<in> set (new_events w w') \<longrightarrow>
            (\<exists>md w1. ?c = (Inr md, w1) \<and> m = workspace_meta local
                    \<and> trace w' = trace w1 @ [DeleteWorkspace m])"
    proof (intro allI impI)
      fix m assume "DeleteWorkspace m \<in> set (new_events w w')"
      then have m: "m = workspace_meta local" using nodel [of m] by (auto simp: ne)
      have "trace w' = trace (snd ?c) @ [DeleteWorkspace m]" by (simp add: ok(2) m)
      with c m show "\<exists>md w1. ?c = (Inr md, w1) \<and> m = workspace_meta local
                    \<and> trace w' = trace w1 @ [DeleteWorkspace m]" by blast
    qed
    have second: "\<forall>p ctx0 err. find (\<lambda>x. flavour_of x = flavour) providers = Some p
              \<and> initializer_context p env w = Some ctx0
              \<and> fst (transform_initial env local accountId ctx0) = Some err \<longrightarrow>
            (\<exists>e. r = Inl e) \<and> \<not> list_ex is_delete (new_events w w')"
    proof (intro allI impI, elim conjE)
      fix p ctx0 err
      assume "find (\<lambda>x. flavour_of x = flavour) providers = Some p"
        and "initializer_context p env w = Some ctx0"
        and "fst (transform_initial env local accountId ctx0) = Some err"
      then have "fst ?c = Inl err"
        using createWorkspace_initial_fails [of p env w ctx0 "transform_initial env local accountId" err]
        by (simp add: factory_create_def)
      with ok(1) show "(\<exists>e. r = Inl e) \<and> \<not> list_ex is_delete (new_events w w')" by simp
    qed
    from first second show ?thesis by blast
  qed
qed

theorem local_deleted_only_after_creation_witness:
  "find (\<lambda>x. flavour_of x = ''affine-cloud'') demo_providers = Some (CloudProvider ''affine-cloud'')
   \<and> initializer_context (CloudProvider ''affine-cloud'') broken_env demo_world =
       Some (open_handles ''affine-cloud'' ''W2'' demo_world)
   \<and> fst (transform_initial broken_env demo_local ''A1''
            (open_handles ''affine-cloud'' ''W2'' demo_world)) = Some (Thrown ''read failed'')
   \<and> (\<exists>e. fst (transformLocalToCloud broken_env demo_providers demo_local ''A1'' ''affine-cloud''
                 demo_world) = Inl e)
   \<and> \<not> list_ex is_delete
         (new_events demo_world
            (snd (transformLocalToCloud broken_env demo_providers demo_local ''A1'' ''affine-cloud''
                    demo_world)))
   \<and> DeleteWorkspace demo_meta \<in> set
         (new_events demo_world
            (snd (transformLocalToCloud demo_env demo_providers demo_local ''A1'' ''affine-cloud''
                    demo_world)))
   \<and> (\<exists>md w1. factory_create demo_env demo_providers ''affine-cloud''
                 (transform_initial demo_env demo_local ''A1'') demo_world = (Inr md, w1)
             \<and> trace (snd (transformLocalToCloud demo_env demo_providers demo_local ''A1''
                             ''affine-cloud'' demo_world)) = trace w1 @ [DeleteWorkspace demo_meta])"
proof -
  have a: "find (\<lambda>x. flavour_of x = ''affine-cloud'') demo_providers = Some (CloudProvider ''affine-cloud'')"
    by (simp add: demo_providers_def)
  have b: "initializer_context (CloudProvider ''affine-cloud'') broken_env demo_world =
       Some (open_handles ''affine-cloud'' ''W2'' demo_world)"
    by (simp add: initializer_context_def broken_env_def demo_env_def)
  have c: "fst (transform_initial broken_env demo_local ''A1''
            (open_handles ''affine-cloud'' ''W2'' demo_world)) = Some (Thrown ''read failed'')"
    by (simp add: demo_defs run_defs)
  have d: "DeleteWorkspace demo_meta \<in> set
         (new_events demo_world
            (snd (transformLocalToCloud demo_env demo_providers demo_local ''A1'' ''affine-cloud''
                    demo_world)))"
    by (simp add: new_events_def demo_run_trace) (simp add: demo_world_def)
  note bad = local_deleted_only_after_creation [where env = broken_env
      and providers = demo_providers and local = demo_local and accountId = "''A1''"
      and flavour = "''affine-cloud''" and w = demo_world, OF surjective_pairing,
      THEN conjunct2, rule_format, of "CloudProvider ''affine-cloud''"
        "open_handles ''affine-cloud'' ''W2'' demo_world" "Thrown ''read failed''"]
  note good = local_deleted_only_after_creation [where env = demo_env
      and providers = demo_providers and local = demo_local and accountId = "''A1''"
      and flavour = "''affine-cloud''" and w = demo_world, OF surjective_pairing,
      THEN conjunct1, rule_format, OF d]
  have e: "(\<exists>e. fst (transformLocalToCloud broken_env demo_providers demo_local ''A1'' ''affine-cloud''
                 demo_world) = Inl e)
   \<and> \<not> list_ex is_delete
         (new_events demo_world
            (snd (transformLocalToCloud broken_env demo_providers demo_local ''A1'' ''affine-cloud''
                    demo_world)))"
    using bad a b c by blast
  have f: "\<exists>md w1. factory_create demo_env demo_providers ''affine-cloud''
                 (transform_initial demo_env demo_local ''A1'') demo_world = (Inr md, w1)
             \<and> trace (snd (transformLocalToCloud demo_env demo_providers demo_local ''A1''
                             ''affine-cloud'' demo_world)) = trace w1 @ [DeleteWorkspace demo_meta]"
    using good by (simp add: demo_local_def) 
  from a b c e d f show ?thesis by (intro conjI) blast+
qed

text \<open>
  C8. When the flavour of the source workspace is not \<^verbatim>\<open>'local'\<close>, the transform throws the
  assertion error at once and once: nothing has been read, created or deleted, the world is
  the one it was called in.
\<close>

theorem transform_requires_local_flavour:
  "workspace_flavour local \<noteq> ''local'' \<Longrightarrow>
   transformLocalToCloud env providers local accountId flavour w = (Inl AssertEqualsFailed, w)"
  by (simp add: transformLocalToCloud_def assertEquals_def)

theorem transform_requires_local_flavour_witness:
  "workspace_flavour (demo_local\<lparr>workspace_flavour := ''affine-cloud''\<rparr>) \<noteq> ''local'' \<and>
   transformLocalToCloud demo_env demo_providers (demo_local\<lparr>workspace_flavour := ''affine-cloud''\<rparr>)
     ''A1'' ''affine-cloud'' demo_world = (Inl AssertEqualsFailed, demo_world)"
proof -
  have a: "workspace_flavour (demo_local\<lparr>workspace_flavour := ''affine-cloud''\<rparr>) \<noteq> ''local''"
    by simp
  from a transform_requires_local_flavour [OF a] show ?thesis by (intro conjI)
qed

text \<open>
  C2 does not hold as stated, for either flavour: the initializer of the transform
  copies the first blob into the new workspace's blob storage and throws at the second;
  \<^verbatim>\<open>createWorkspace\<close> rethrows, and the copied blob is still in the storage of the workspace
  that was never created.
\<close>

theorem failed_creation_leaves_backend_state:
  "fst (createWorkspace LocalProvider broken_env
          (transform_initial broken_env demo_local ''A1'') demo_world) = Inl (Thrown ''read failed'')
   \<and> blobStores demo_world (''local'', ''L2'') ''b1'' = None
   \<and> blobStores (snd (createWorkspace LocalProvider broken_env
          (transform_initial broken_env demo_local ''A1'') demo_world)) (''local'', ''L2'') ''b1''
       = Some demo_blob
   \<and> fst (createWorkspace (CloudProvider ''affine-cloud'') broken_env
          (transform_initial broken_env demo_local ''A1'') demo_world) = Inl (Thrown ''read failed'')
   \<and> blobStores demo_world (''affine-cloud'', ''W2'') ''b1'' = None
   \<and> blobStores (snd (createWorkspace (CloudProvider ''affine-cloud'') broken_env
          (transform_initial broken_env demo_local ''A1'') demo_world)) (''affine-cloud'', ''W2'') ''b1''
       = Some demo_blob"
  by (simp add: demo_defs run_defs)

text \<open>
  C2, amended.  When the initializer throws, \<^verbatim>\<open>createWorkspace\<close> of either flavour rethrows
  that exception, so no metadata is returned; the local workspace id list is as before; the
  collection is disposed, and that is the only thing done after the initializer (for the
  cloud flavour the mutation that made the remote workspace came before it and is not
  undone); the doc and blob storages of the new workspace id hold exactly what the
  initializer had written when it threw.
\<close>

theorem failed_creation_keeps_no_metadata:
  "(initial (open_handles ''local'' (nanoid env) w) = (Some err, ctx') \<longrightarrow>
      (let res = createWorkspace LocalProvider env initial w in
       fst res = Inl err
       \<and> localStorageIds (snd res) = localStorageIds w
       \<and> trace (snd res) = trace w @ [DisposeCollection (nanoid env)]
       \<and> docStores (snd res) = (docStores w)((''local'', nanoid env) := docStorage ctx')
       \<and> blobStores (snd res) = (blobStores w)((''local'', nanoid env) := blobStorage ctx')))
   \<and> (gqlCreateWorkspaceR env = Inr workspaceId
       \<and> initial (open_handles serverId workspaceId w) = (Some err, ctx') \<longrightarrow>
      (let res = createWorkspace (CloudProvider serverId) env initial w in
       fst res = Inl err
       \<and> localStorageIds (snd res) = localStorageIds w
       \<and> trace (snd res) = trace w @ [GqlCreateWorkspace, DisposeCollection workspaceId]
       \<and> docStores (snd res) = (docStores w)((serverId, workspaceId) := docStorage ctx')
       \<and> blobStores (snd res) = (blobStores w)((serverId, workspaceId) := blobStorage ctx')))"
  by (simp add: createWorkspace_local_def createWorkspace_cloud_def Let_def written_def emit_def
      open_handles_def)

theorem failed_creation_keeps_no_metadata_witness:
  "transform_initial broken_env demo_local ''A1'' (open_handles ''local'' (nanoid broken_env) demo_world)
     = (Some (Thrown ''read failed''),
        snd (transform_initial broken_env demo_local ''A1''
               (open_handles ''local'' (nanoid broken_env) demo_world)))
   \<and> fst (createWorkspace LocalProvider broken_env
            (transform_initial broken_env demo_local ''A1'') demo_world) = Inl (Thrown ''read failed'')
   \<and> localStorageIds (snd (createWorkspace LocalProvider broken_env
            (transform_initial broken_env demo_local ''A1'') demo_world)) = Some [''W1'']
   \<and> trace (snd (createWorkspace LocalProvider broken_env
            (transform_initial broken_env demo_local ''A1'') demo_world)) = [DisposeCollection ''L2'']
   \<and> gqlCreateWorkspaceR broken_env = Inr ''W2''
   \<and> transform_initial broken_env demo_local ''A1'' (open_handles ''affine-cloud'' ''W2'' demo_world)
     = (Some (Thrown ''read failed''),
        snd (transform_initial broken_env demo_local ''A1''
               (open_handles ''affine-cloud'' ''W2'' demo_world)))
   \<and> fst (createWorkspace (CloudProvider ''affine-cloud'') broken_env
            (transform_initial broken_env demo_local ''A1'') demo_world) = Inl (Thrown ''read failed'')
   \<and> trace (snd (createWorkspace (CloudProvider ''affine-cloud'') broken_env
            (transform_initial broken_env demo_local ''A1'') demo_world))
       = [GqlCreateWorkspace, DisposeCollection ''W2'']"
proof -
  let ?init = "transform_initial broken_env demo_local ''A1''"
  have "fst (?init (open_handles ''local'' (nanoid broken_env) demo_world)) = Some (Thrown ''read failed'')"
    by (simp add: demo_defs run_defs)
  then have a: "?init (open_handles ''local'' (nanoid broken_env) demo_world)
     = (Some (Thrown ''read failed''), snd (?init (open_handles ''local'' (nanoid broken_env) demo_world)))"
    by (metis prod.collapse)
  have g: "gqlCreateWorkspaceR broken_env = Inr ''W2''"
    by (simp add: broken_env_def demo_env_def)
  have "fst (?init (open_handles ''affine-cloud'' ''W2'' demo_world)) = Some (Thrown ''read failed'')"
    by (simp add: demo_defs run_defs)
  then have b: "?init (open_handles ''affine-cloud'' ''W2'' demo_world)
     = (Some (Thrown ''read failed''), snd (?init (open_handles ''affine-cloud'' ''W2'' demo_world)))"
    by (metis prod.collapse)
  note l = failed_creation_keeps_no_metadata [where env = broken_env and initial = ?init
      and w = demo_world, THEN conjunct1, rule_format, OF a, unfolded Let_def]
  note c = failed_creation_keeps_no_metadata [where env = broken_env and initial = ?init
      and w = demo_world and serverId = "''affine-cloud''",
      THEN conjunct2, rule_format, OF conjI [OF g b], unfolded Let_def]
  have l2: "localStorageIds (snd (createWorkspace LocalProvider broken_env ?init demo_world)) = Some [''W1'']"
    using l by (simp add: demo_world_def)
  have l3: "trace (snd (createWorkspace LocalProvider broken_env ?init demo_world)) = [DisposeCollection ''L2'']"
    using l by (simp add: demo_world_def broken_env_def demo_env_def)
  have c3: "trace (snd (createWorkspace (CloudProvider ''affine-cloud'') broken_env ?init demo_world))
       = [GqlCreateWorkspace, DisposeCollection ''W2'']"
    using c by (simp add: demo_world_def)
  from a l [THEN conjunct1] l2 l3 g b c [THEN conjunct1] c3 show ?thesis by (intro conjI)
qed

lemma copy_blobs_ok:
  assumes "\<forall>k. \<not> isl (blobGetR env k)" and "\<forall>b. blobSetR env b = None"
  shows "copy_blobs env ks ctx =
           (None, ctx\<lparr>blobStorage :=
                        foldl (\<lambda>s b. blob_set b s) (blobStorage ctx) (present_blobs env ks)\<rparr>)"
proof (induction ks arbitrary: ctx)
  case Nil
  show ?case by (simp add: present_blobs_def)
next
  case (Cons k ks)
  show ?case
  proof (cases "blobGetR env k")
    case (Inl e)
    with assms(1) show ?thesis by (metis isl_def)
  next
    case (Inr found)
    show ?thesis
    proof (cases found)
      case None
      with Inr Cons show ?thesis by (simp add: present_blobs_def)
    next
      case (Some b)
      with Inr assms(2) Cons [of "ctx\<lparr>blobStorage := blob_set b (blobStorage ctx)\<rparr>"]
      show ?thesis by (simp add: present_blobs_def)
    qed
  qed
qed

lemma copied_subdocs_step:
  "copied_subdocs env gs (upd(g0 := upd g0 @ doc_bins env g0)) = copied_subdocs env (g0 # gs) upd"
  by (rule ext) (simp add: copied_subdocs_def)

lemma copy_subdocs_ok:
  assumes "\<forall>g. \<not> isl (getDocR env g)" and "\<forall>b. applyUpdateR env b = None"
  shows "copy_subdocs env gs ctx =
           (None, ctx\<lparr>docCollection :=
                        (docCollection ctx)\<lparr>subdoc_updates :=
                           copied_subdocs env gs (subdoc_updates (docCollection ctx))\<rparr>\<rparr>)"
proof (induction gs arbitrary: ctx)
  case Nil
  have "copied_subdocs env [] (subdoc_updates (docCollection ctx)) = subdoc_updates (docCollection ctx)"
    by (rule ext) (simp add: copied_subdocs_def)
  then show ?case by simp
next
  case (Cons g0 gs)
  let ?upd = "subdoc_updates (docCollection ctx)"
  show ?case
  proof (cases "getDocR env g0")
    case (Inl e)
    with assms(1) show ?thesis by (metis isl_def)
  next
    case (Inr found)
    show ?thesis
    proof (cases found)
      case None
      then have "doc_bins env g0 = []" using Inr by (simp add: doc_bins_def)
      then have "copied_subdocs env (g0 # gs) ?upd = copied_subdocs env gs ?upd"
        using copied_subdocs_step [of env gs ?upd g0] by simp
      with None Inr Cons show ?thesis by simp
    next
      case (Some r)
      then have b: "doc_bins env g0 = [bin r]" using Inr by (simp add: doc_bins_def)
      have "copied_subdocs env (g0 # gs) ?upd = copied_subdocs env gs (?upd(g0 := ?upd g0 @ [bin r]))"
        using copied_subdocs_step [of env gs ?upd g0] by (simp add: b)
      with Some Inr assms(2) Cons show ?thesis by (simp add: apply_subdoc_def)
    qed
  qed
qed

lemma push_all_ok: "\<forall>r. pushDocUpdateR env r = None \<Longrightarrow> fst (push_all env rs s) = None"
  by (induction rs arbitrary: s) simp_all

lemma save_collection_ok:
  "\<forall>r. pushDocUpdateR env r = None \<Longrightarrow> fst (save_collection env i c) = None"
  by (simp add: save_collection_def Let_def split_beta push_all_ok del: push_all.simps)

lemma createWorkspace_ok:
  assumes "\<forall>ctx. fst (initial ctx) = None" and "\<forall>r. pushDocUpdateR env r = None"
    and "waitForLoadedR env = None" and "\<not> isl (gqlCreateWorkspaceR env)"
  shows "\<exists>md. fst (createWorkspace p env initial w) = Inr md"
proof (cases p)
  case LocalProvider
  obtain c where c: "initial (open_handles ''local'' (nanoid env) w) = (None, c)"
    using assms(1) by (metis prod.collapse)
  obtain c2 where c2: "save_collection env (nanoid env) c = (None, c2)"
    using save_collection_ok [OF assms(2)] by (metis prod.collapse)
  show ?thesis using LocalProvider c c2 by (simp add: createWorkspace_local_def Let_def)
next
  case (CloudProvider serverId)
  obtain i where i: "gqlCreateWorkspaceR env = Inr i"
    using assms(4) by (cases "gqlCreateWorkspaceR env") simp_all
  obtain c where c: "initial (open_handles serverId i w) = (None, c)"
    using assms(1) by (metis prod.collapse)
  obtain c2 where c2: "save_collection env i c = (None, c2)"
    using save_collection_ok [OF assms(2)] by (metis prod.collapse)
  show ?thesis using CloudProvider i c c2 assms(3)
    by (simp add: createWorkspace_cloud_def Let_def)
qed

lemma transform_initial_ok:
  assumes eng: "worker (workspace_engine local) \<noteq> None"
    and docs: "\<forall>g. \<not> isl (getDocR env g)"
    and app: "\<forall>b. applyUpdateR env b = None"
    and db: "\<forall>a b c s. fst (transformWorkspaceDBLocalToCloud env a b c s) = None"
    and bl: "blobListR env = Inr ks"
    and bg: "\<forall>k. \<not> isl (blobGetR env k)"
    and bs: "\<forall>b. blobSetR env b = None"
  shows "transform_initial env local accountId ctx =
     (let roots = root_updates (docCollection ctx) @ doc_bins env (root_guid local) in
      (None,
       ctx\<lparr>docCollection :=
             (docCollection ctx)
               \<lparr>root_updates := roots,
                subdoc_updates :=
                  copied_subdocs env (getSubdocs env roots) (subdoc_updates (docCollection ctx))\<rparr>,
           docStorage :=
             snd (transformWorkspaceDBLocalToCloud env (workspace_id local)
                    (coll_id (docCollection ctx)) accountId (docStorage ctx)),
           blobStorage :=
             foldl (\<lambda>s b. blob_set b s) (blobStorage ctx) (present_blobs env ks)\<rparr>))"
proof -
  let ?roots = "root_updates (docCollection ctx) @ doc_bins env (root_guid local)"
  let ?ctx1 = "ctx\<lparr>docCollection := (docCollection ctx)\<lparr>root_updates := ?roots\<rparr>\<rparr>"
  let ?ctx2 = "?ctx1\<lparr>docCollection :=
                 (docCollection ?ctx1)\<lparr>subdoc_updates :=
                    copied_subdocs env (getSubdocs env ?roots) (subdoc_updates (docCollection ?ctx1))\<rparr>\<rparr>"
  obtain found where f: "getDocR env (root_guid local) = Inr found"
    using docs by (cases "getDocR env (root_guid local)") (metis isl_def, simp)
  have s1: "(case found of None \<Rightarrow> (None, ctx) | Some r \<Rightarrow> apply_root env (bin r) ctx) = (None, ?ctx1)"
    using f app by (cases found) (simp_all add: doc_bins_def apply_root_def)
  have s2: "copy_subdocs env (getSubdocs env (root_updates (docCollection ?ctx1))) ?ctx1 = (None, ?ctx2)"
    using copy_subdocs_ok [OF docs app, of "getSubdocs env ?roots" ?ctx1] by simp
  obtain d where s3: "transformWorkspaceDBLocalToCloud env (workspace_id local)
                        (coll_id (docCollection ?ctx2)) accountId (docStorage ?ctx2) = (None, d)"
    using db by (metis prod.collapse)
  have s3': "snd (transformWorkspaceDBLocalToCloud env (workspace_id local)
                    (coll_id (docCollection ctx)) accountId (docStorage ctx)) = d"
    using s3 by simp
  have s4: "blob (workspace_engine local) = Inr (blobFrontend (the (worker (workspace_engine local))))"
    using eng by (auto simp: blob_def)
  have s5: "copy_blobs env ks (?ctx2\<lparr>docStorage := d\<rparr>) =
              (None, ?ctx2\<lparr>docStorage := d,
                          blobStorage := foldl (\<lambda>s b. blob_set b s) (blobStorage ctx) (present_blobs env ks)\<rparr>)"
    using copy_blobs_ok [OF bg bs, of ks "?ctx2\<lparr>docStorage := d\<rparr>"] by simp
  have "transform_initial env local accountId ctx =
          (None, ?ctx2\<lparr>docStorage := d,
                      blobStorage := foldl (\<lambda>s b. blob_set b s) (blobStorage ctx) (present_blobs env ks)\<rparr>)"
    unfolding transform_initial_def f
    by (simp only: sum.case s1 s2 s3 s4 s5 bl prod.case option.case)
  then show ?thesis by (simp add: Let_def s3')
qed

text \<open>
  C10. When no collaborator throws (the local engine is started, the provider exists, every
  read, write, push and wait returns), the initializer of the transform succeeds on every
  context whatever documents and blobs the local storages answer null for: the new root
  document receives the local root update if there is one, every subdocument receives its
  local update if there is one, every listed blob that exists is stored, the absent ones
  are passed over; and the transform returns the new metadata after calling
  \<^verbatim>\<open>deleteWorkspace\<close> for the local original.
\<close>

theorem transform_skips_absent_docs_and_blobs:
  assumes flv: "workspace_flavour local = ''local''"
    and eng: "worker (workspace_engine local) \<noteq> None"
    and prov: "find (\<lambda>x. flavour_of x = flavour) providers \<noteq> None"
    and gql: "\<not> isl (gqlCreateWorkspaceR env)"
    and docs: "\<forall>g. \<not> isl (getDocR env g)"
    and app: "\<forall>b. applyUpdateR env b = None"
    and db: "\<forall>a b c s. fst (transformWorkspaceDBLocalToCloud env a b c s) = None"
    and bl: "blobListR env = Inr ks"
    and bg: "\<forall>k. \<not> isl (blobGetR env k)"
    and bs: "\<forall>b. blobSetR env b = None"
    and push: "\<forall>r. pushDocUpdateR env r = None"
    and wait: "waitForLoadedR env = None"
    and del: "deleteWorkspaceR env = None"
  shows "(\<forall>ctx. transform_initial env local accountId ctx =
           (let roots = root_updates (docCollection ctx) @ doc_bins env (root_guid local) in
            (None,
             ctx\<lparr>docCollection :=
                   (docCollection ctx)
                     \<lparr>root_updates := roots,
                      subdoc_updates :=
                        copied_subdocs env (getSubdocs env roots)
                          (subdoc_updates (docCollection ctx))\<rparr>,
                 docStorage :=
                   snd (transformWorkspaceDBLocalToCloud env (workspace_id local)
                          (coll_id (docCollection ctx)) accountId (docStorage ctx)),
                 blobStorage :=
                   foldl (\<lambda>s b. blob_set b s) (blobStorage ctx) (present_blobs env ks)\<rparr>)))
       \<and> (\<exists>md w1. factory_create env providers flavour
                      (transform_initial env local accountId) w = (Inr md, w1)
                  \<and> transformLocalToCloud env providers local accountId flavour w =
                      (Inr md, emit (DeleteWorkspace (workspace_meta local)) w1))"
proof -
  note init = transform_initial_ok [OF eng docs app db bl bg bs]
  have i0: "\<forall>ctx. fst (transform_initial env local accountId ctx) = None"
    by (simp add: init Let_def)
  obtain p where p: "find (\<lambda>x. flavour_of x = flavour) providers = Some p"
    using prov by auto
  obtain md where "fst (createWorkspace p env (transform_initial env local accountId) w) = Inr md"
    using createWorkspace_ok [OF i0 push wait gql] by blast
  then obtain w1 where c: "factory_create env providers flavour
                      (transform_initial env local accountId) w = (Inr md, w1)"
    using p by (simp add: factory_create_def) (metis prod.collapse)
  obtain wk where wk: "worker (workspace_engine local) = Some wk" using eng by auto
  have "transformLocalToCloud env providers local accountId flavour w =
          (Inr md, emit (DeleteWorkspace (workspace_meta local)) w1)"
    by (simp add: transformLocalToCloud_def assertEquals_def flv doc_def wk c del)
  with c init show ?thesis by blast
qed

theorem transform_skips_absent_docs_and_blobs_witness:
  "getDocR demo_env ''S9'' = Inr None \<and> blobGetR demo_env ''b0'' = Inr None
   \<and> fst (transformLocalToCloud demo_env demo_providers demo_local ''A1'' ''affine-cloud'' demo_world)
       = Inr \<lparr>ws_id = ''W2'', ws_flavour = ''affine-cloud'', initialized = None\<rparr>
   \<and> (\<exists>md w1. factory_create demo_env demo_providers ''affine-cloud''
                      (transform_initial demo_env demo_local ''A1'') demo_world = (Inr md, w1)
                  \<and> transformLocalToCloud demo_env demo_providers demo_local ''A1'' ''affine-cloud''
                      demo_world = (Inr md, emit (DeleteWorkspace (workspace_meta demo_local)) w1))"
proof -
  have flv: "workspace_flavour demo_local = ''local''"
    and eng: "worker (workspace_engine demo_local) \<noteq> None"
    by (simp_all add: demo_local_def)
  have prov: "find (\<lambda>x. flavour_of x = ''affine-cloud'') demo_providers \<noteq> None"
    by (simp add: demo_providers_def)
  have gql: "\<not> isl (gqlCreateWorkspaceR demo_env)"
    and docs: "\<forall>g. \<not> isl (getDocR demo_env g)"
    and app: "\<forall>b. applyUpdateR demo_env b = None"
    and db: "\<forall>a b c s. fst (transformWorkspaceDBLocalToCloud demo_env a b c s) = None"
    and bl: "blobListR demo_env = Inr [''b0'', ''b1'']"
    and bg: "\<forall>k. \<not> isl (blobGetR demo_env k)"
    and bs: "\<forall>b. blobSetR demo_env b = None"
    and push: "\<forall>r. pushDocUpdateR demo_env r = None"
    and wait: "waitForLoadedR demo_env = None"
    and del: "deleteWorkspaceR demo_env = None"
    by (simp_all add: demo_env_def)
  have a: "getDocR demo_env ''S9'' = Inr None" and b: "blobGetR demo_env ''b0'' = Inr None"
    by (simp_all add: demo_env_def)
  have c: "fst (transformLocalToCloud demo_env demo_providers demo_local ''A1'' ''affine-cloud'' demo_world)
       = Inr \<lparr>ws_id = ''W2'', ws_flavour = ''affine-cloud'', initialized = None\<rparr>"
    by (rule demo_run_ok)
  from a b c
    transform_skips_absent_docs_and_blobs [OF flv eng prov gql docs app db bl bg bs push wait del,
      of "''A1''" demo_world, THEN conjunct2]
  show ?thesis by (intro conjI)
qed

end
